theory Spec2Isabelle
  imports Main
begin

section \<open>Data model\<close>

text \<open>
  The rows of the four tables the order controller touches. Columns that a request may
  leave undefined are options. A timestamp is a natural number; \<open>deleted_at = None\<close> is
  the SQL NULL of a row that is not soft-deleted.
\<close>

type_synonym timestamp = nat

record order =
  o_id :: nat
  o_user_id :: "nat option"
  o_status :: "string option"
  o_deleted_at :: "timestamp option"

record order_item =
  i_id :: nat
  i_order_id :: nat
  i_product_id :: string
  i_quantity :: nat

record coupon =
  c_id :: nat
  c_code :: string
  c_recursive :: bool

record discount =
  d_id :: nat
  d_order_id :: nat
  d_coupon_id :: nat
  d_deleted_at :: "timestamp option"

record tables =
  orders :: "order list"
  order_items :: "order_item list"
  coupons :: "coupon list"
  discounts :: "discount list"

section \<open>Exceptions and responses\<close>

text \<open>
  Every exception of the source is a value. \<open>ReferenceError x\<close> is what JavaScript
  raises when the identifier \<open>x\<close> is read and no enclosing scope declares it.
  \<open>StackOf e\<close> stands for the string \<open>e.stack\<close>.
\<close>

datatype js_error =
    ModelNotFoundException
  | ReferenceError string
  | TypeError string
  | DatabaseError

datatype stack_trace = StackOf js_error

definition stack :: "js_error \<Rightarrow> stack_trace" where
  "stack e = StackOf e"

record info =
  message :: string
  success :: bool

record page =
  p_total :: nat
  p_perPage :: nat
  p_page :: nat
  p_data :: "order list"

datatype body =
    PageBody page
  | OrderBody order "order_item list"
  | NullBody
  | ApplyBody order info
  | DiscountBody discount
  | ErrorBody string "stack_trace option"

record http_response =
  status :: nat
  body :: body

datatype trx_state = Open | Committed | RolledBack

text \<open>
  What a controller method leaves behind: \<open>reply\<close> is \<open>Inr\<close> the response it sent or
  \<open>Inl\<close> the exception that escaped the method (its promise rejects); \<open>db\<close> is the
  committed content of the tables; \<open>trx\<close> is the state of the transaction the method
  began, if it began one.
\<close>

record outcome =
  reply :: "js_error + http_response"
  db :: tables
  trx :: "trx_state option"

definition send_error :: "string \<Rightarrow> js_error \<Rightarrow> http_response" where
  "send_error msg e = \<lparr>status = 400, body = ErrorBody msg (Some (stack e))\<rparr>"

section \<open>Scopes\<close>

text \<open>
  The identifiers each block of the source can see. The module declares the constants
  of its first lines and the class; a method adds its destructured parameters; a
  \<open>const\<close> or \<open>let\<close> is visible from its declaration to the end of the block that
  holds it, so a name declared inside \<open>try { }\<close> is not visible in \<open>catch { }\<close>.
\<close>

definition module_scope :: "string list" where
  "module_scope =
     [''Order'', ''Service'', ''Coupon'', ''Discount'', ''Transformer'', ''Database'',
      ''OrderController'']"

definition resolve :: "string list \<Rightarrow> string \<Rightarrow> js_error option" where
  "resolve scope x = (if x \<in> set scope then None else Some (ReferenceError x))"

text \<open>\<open>store\<close>: \<open>trx\<close> is declared in the method body, before \<open>try\<close>.\<close>

definition scope_store_catch :: "string list" where
  "scope_store_catch =
     module_scope @ [''request'', ''response'', ''transform'', ''trx'', ''error'']"

text \<open>\<open>update\<close>: \<open>order\<close>, \<open>trx\<close>, \<open>user_id\<close>, \<open>items\<close>, \<open>status\<close> and \<open>service\<close>
  are declared inside the \<open>try\<close> block.\<close>

definition scope_update_catch :: "string list" where
  "scope_update_catch =
     module_scope @ [''id'', ''request'', ''response'', ''transform'', ''error'']"

text \<open>\<open>applyDiscount\<close>, at the end of its \<open>try\<close> block.\<close>

definition scope_applyDiscount_try :: "string list" where
  "scope_applyDiscount_try =
     module_scope @ [''id'', ''request'', ''response'', ''transform'', ''code'', ''coupon'',
       ''order'', ''info'', ''service'', ''canAddDiscount'', ''orderDiscounts'',
       ''canApplyToOrder'']"

section \<open>ORM primitives\<close>

text \<open>The id an insert gets from the serial column: larger than every id of the table.
  It is taken as the successor of the largest one; a database sequence may hand out a
  larger id still, since it does not reuse the ids of inserts that were rolled back.\<close>

definition next_id :: "nat list \<Rightarrow> nat" where
  "next_id ids = Suc (fold max ids 0)"

definition Order_find :: "tables \<Rightarrow> nat \<Rightarrow> order option" where
  "Order_find s i = find (\<lambda>r. o_id r = i) (orders s)"

definition Order_findOrFail :: "tables \<Rightarrow> nat \<Rightarrow> js_error + order" where
  "Order_findOrFail s i =
     (case Order_find s i of None \<Rightarrow> Inl ModelNotFoundException | Some r \<Rightarrow> Inr r)"

definition Coupon_findByOrFail_code :: "tables \<Rightarrow> string \<Rightarrow> js_error + coupon" where
  "Coupon_findByOrFail_code s cd =
     (case find (\<lambda>r. c_code r = cd) (coupons s) of
        None \<Rightarrow> Inl ModelNotFoundException
      | Some r \<Rightarrow> Inr r)"

text \<open>\<open>Discount.findOrFail(discount_id)\<close>: the row with that primary key, whatever its
  \<open>deleted_at\<close>; an undefined key is refused by the query builder.\<close>

definition Discount_findOrFail :: "tables \<Rightarrow> nat option \<Rightarrow> js_error + discount" where
  "Discount_findOrFail s k =
     (case k of
        None \<Rightarrow> Inl DatabaseError
      | Some i \<Rightarrow>
          (case find (\<lambda>r. d_id r = i) (discounts s) of
             None \<Rightarrow> Inl ModelNotFoundException
           | Some r \<Rightarrow> Inr r))"

text \<open>\<open>Discount.findOrCreate({order_id, coupon_id})\<close>: the first row with these two
  columns if there is one, else a new row with a fresh id and no \<open>deleted_at\<close>.\<close>

definition Discount_findOrCreate :: "tables \<Rightarrow> nat \<Rightarrow> nat \<Rightarrow> tables" where
  "Discount_findOrCreate s oid cid =
     (case find (\<lambda>r. d_order_id r = oid \<and> d_coupon_id r = cid) (discounts s) of
        Some r \<Rightarrow> s
      | None \<Rightarrow>
          s\<lparr>discounts := discounts s @
              [\<lparr>d_id = next_id (map d_id (discounts s)), d_order_id = oid,
                d_coupon_id = cid, d_deleted_at = None\<rparr>]\<rparr>)"

text \<open>\<open>discount.merge({deleted_at}); discount.save()\<close>: an UPDATE of the one changed
  column, \<open>deleted_at\<close>, where the primary key is the discount's id.\<close>

definition Discount_save :: "tables \<Rightarrow> discount \<Rightarrow> tables" where
  "Discount_save s r =
     s\<lparr>discounts :=
         map (\<lambda>x. if d_id x = d_id r then x\<lparr>d_deleted_at := d_deleted_at r\<rparr> else x)
           (discounts s)\<rparr>"

text \<open>Modelled from the spec: the relation \<open>coupons()\<close> of the Order model is not among
  the sources. \<open>order.coupons().getCount()\<close> is the spec's \<open>countActiveDiscounts\<close>, the
  number of non-deleted Discount rows on the order.\<close>

definition coupons_getCount :: "tables \<Rightarrow> order \<Rightarrow> nat" where
  "coupons_getCount s r =
     length (filter (\<lambda>x. d_order_id x = o_id r \<and> d_deleted_at x = None) (discounts s))"

text \<open>What \<open>String.prototype.toUpperCase\<close> returns for a string of ASCII characters: the
  letters a to z become A to Z and every other ASCII character stays. It is used for
  the example codes, which are ASCII; the controller methods take the function of the
  runtime as a parameter.\<close>

definition ascii_toUpperCase :: "string \<Rightarrow> string" where
  "ascii_toUpperCase cs =
     map (\<lambda>c. let n = (of_char c :: nat) in
               if 97 \<le> n \<and> n \<le> 122 then char_of (n - 32) else c) cs"

section \<open>applyDiscount\<close>

record apply_request =
  rq_code :: "string option"

text \<open>The stacking rule, as the source writes it.\<close>

definition canApplyToOrder :: "nat \<Rightarrow> coupon \<Rightarrow> bool" where
  "canApplyToOrder orderDiscounts c =
     (orderDiscounts < 1 \<or> (orderDiscounts \<ge> 1 \<and> c_recursive c))"

definition catch_applyDiscount :: "tables \<Rightarrow> js_error \<Rightarrow> outcome" where
  "catch_applyDiscount s e =
     \<lparr>reply = Inr (send_error ''Error coupon clould not be apllied'' e), db = s,
      trx = None\<rparr>"

text \<open>
  \<open>canApplyDiscount\<close> is the method of the order service, which is not among the
  sources: a parameter, the spec's opaque eligibility predicate. \<open>toUpperCase\<close> is
  \<open>String.prototype.toUpperCase\<close> of the JavaScript runtime, a parameter as well: the
  theorems hold for whatever it maps a code to. The method reads
  \<open>code.toUpperCase()\<close>, looks the coupon and the order up, decides, records the
  discount, and then evaluates \<open>transform...item(orders, Transformer)\<close>, where it reads
  the identifier \<open>orders\<close>.
\<close>

definition applyDiscount ::
  "(string \<Rightarrow> string) \<Rightarrow> (tables \<Rightarrow> order \<Rightarrow> coupon \<Rightarrow> bool) \<Rightarrow> tables \<Rightarrow> nat \<Rightarrow>
     apply_request \<Rightarrow> outcome" where
  "applyDiscount toUpperCase canApplyDiscount s i rq =
     (case rq_code rq of
        None \<Rightarrow> catch_applyDiscount s (TypeError ''toUpperCase'')
      | Some cd \<Rightarrow>
          (case Coupon_findByOrFail_code s (toUpperCase cd) of
             Inl e \<Rightarrow> catch_applyDiscount s e
           | Inr c \<Rightarrow>
               (case Order_findOrFail s i of
                  Inl e \<Rightarrow> catch_applyDiscount s e
                | Inr r \<Rightarrow>
                    (let canAddDiscount = canApplyDiscount s r c;
                         orderDiscounts = coupons_getCount s r;
                         applied = (canAddDiscount \<and> canApplyToOrder orderDiscounts c);
                         s' = (if applied then Discount_findOrCreate s (o_id r) (c_id c)
                               else s);
                         inf = (if applied
                                then \<lparr>message = ''Coupon successfully applied'',
                                      success = True\<rparr>
                                else \<lparr>message = ''This coupon could not be applied'',
                                      success = False\<rparr>)
                     in case resolve scope_applyDiscount_try ''orders'' of
                          Some e \<Rightarrow> catch_applyDiscount s' e
                        | None \<Rightarrow>
                            \<lparr>reply = Inr \<lparr>status = 200, body = ApplyBody r inf\<rparr>,
                             db = s', trx = None\<rparr>))))"

section \<open>removeDiscount\<close>

record remove_request =
  rq_discount_id :: "nat option"

definition removeDiscount :: "timestamp \<Rightarrow> tables \<Rightarrow> remove_request \<Rightarrow> outcome" where
  "removeDiscount now s rq =
     (case Discount_findOrFail s (rq_discount_id rq) of
        Inl e \<Rightarrow>
          \<lparr>reply = Inr (send_error ''This request not performed'' e), db = s, trx = None\<rparr>
      | Inr d \<Rightarrow>
          (let d' = d\<lparr>d_deleted_at := Some now\<rparr>
           in \<lparr>reply = Inr \<lparr>status = 200, body = DiscountBody d'\<rparr>,
               db = Discount_save s d', trx = None\<rparr>))"

section \<open>index\<close>

record index_request =
  ix_status :: "string option"
  ix_id :: "string option"

record pagination =
  pg_page :: nat
  pg_limit :: nat

text \<open>JavaScript truthiness of a request field: undefined and the empty string are
  falsy. \<open>template\<close> is the template literal \<open>`${id}`\<close>.\<close>

definition truthy :: "string option \<Rightarrow> bool" where
  "truthy v = (case v of None \<Rightarrow> False | Some x \<Rightarrow> x \<noteq> [])"

definition template :: "string option \<Rightarrow> string" where
  "template v = (case v of None \<Rightarrow> ''undefined'' | Some x \<Rightarrow> x)"

text \<open>
  The clauses of the query the method builds: \<open>where('status', status)\<close> and
  \<open>where('id', 'ILIKE', `${id}`)\<close>; with both fields truthy the second is joined to
  the first by \<open>orWhere\<close>, so the clauses of a query are alternatives.
\<close>

datatype where_clause = StatusEq "string option" | IdILike string

definition index_clauses :: "index_request \<Rightarrow> where_clause list" where
  "index_clauses rq =
     (if truthy (ix_status rq) \<and> truthy (ix_id rq)
      then [StatusEq (ix_status rq), IdILike (template (ix_id rq))]
      else if truthy (ix_status rq) then [StatusEq (ix_status rq)]
      else if truthy (ix_id rq) then [IdILike (template (ix_id rq))]
      else [])"

text \<open>
  What the database does with the clauses. The id of an order is an integer. ILIKE
  is an operator of PostgreSQL, which has none between an integer column and a
  pattern: it refuses a statement that holds the clause \<open>id ILIKE ?\<close> when it prepares
  it, whatever the rows. A clause \<open>status = ?\<close> gives the value it compares with; a
  row whose status is NULL satisfies no such clause. Without clauses every row is
  selected.
\<close>

fun compared_status :: "where_clause \<Rightarrow> string option option" where
  "compared_status (StatusEq v) = Some v"
| "compared_status (IdILike pat) = None"

definition Order_query_fetch :: "where_clause list \<Rightarrow> order list \<Rightarrow> js_error + order list" where
  "Order_query_fetch cs rows =
     (case those (map compared_status cs) of
        None \<Rightarrow> Inl DatabaseError
      | Some vs \<Rightarrow>
          Inr (if cs = [] then rows
               else filter (\<lambda>r. o_status r \<noteq> None \<and> o_status r \<in> set vs) rows))"

text \<open>\<open>query.paginate(page, limit)\<close>: the total of the query and the rows of one page
  (the \<open>lastPage\<close> field of the result is left out). The offset is
  \<open>limit * (page - 1)\<close>, which the database refuses when it is negative.\<close>

definition paginate ::
  "nat \<Rightarrow> nat \<Rightarrow> where_clause list \<Rightarrow> order list \<Rightarrow> js_error + page" where
  "paginate pg lim cs table =
     (case Order_query_fetch cs table of
        Inl e \<Rightarrow> Inl e
      | Inr rows \<Rightarrow>
          if pg < 1 then Inl DatabaseError
          else Inr \<lparr>p_total = length rows, p_perPage = lim, p_page = pg,
                    p_data = take lim (drop (lim * (pg - 1)) rows)\<rparr>)"

text \<open>The method reads \<open>pagination.page\<close> after it has built the query and before the
  query runs.\<close>

definition index :: "tables \<Rightarrow> index_request \<Rightarrow> pagination option \<Rightarrow> outcome" where
  "index s rq pagination =
     (case pagination of
        None \<Rightarrow>
          \<lparr>reply = Inr (send_error ''This request not performed'' (TypeError ''page'')),
           db = s, trx = None\<rparr>
      | Some pg \<Rightarrow>
          (case paginate (pg_page pg) (pg_limit pg) (index_clauses rq) (orders s) of
             Inl e \<Rightarrow>
               \<lparr>reply = Inr (send_error ''This request not performed'' e), db = s,
                trx = None\<rparr>
           | Inr found \<Rightarrow>
               \<lparr>reply = Inr \<lparr>status = 200, body = PageBody found\<rparr>, db = s,
                trx = None\<rparr>))"

section \<open>Transactions\<close>

text \<open>
  A transaction works on its own copy of the tables: \<open>beginTransaction\<close> hands out the
  committed content, the writes issued with the transaction change only the copy,
  \<open>commit\<close> makes the copy the committed content, and a rollback drops it.
\<close>

definition beginTransaction :: "tables \<Rightarrow> tables" where
  "beginTransaction s = s"

definition commit :: "tables \<Rightarrow> tables" where
  "commit t = t"

text \<open>
  The \<open>catch\<close> block \<open>store\<close> and \<open>update\<close> share word for word:
  \<open>await trx.rollback()\<close>, then the 400 response. Reading \<open>trx\<close> is resolved in the
  scope of the block; \<open>s\<close> is the committed content and \<open>t\<close> the state of the
  transaction when the block is entered.
\<close>

definition catch_rollback ::
  "string list \<Rightarrow> tables \<Rightarrow> trx_state option \<Rightarrow> js_error \<Rightarrow> outcome" where
  "catch_rollback scope s t e =
     (case resolve scope ''trx'' of
        Some r \<Rightarrow> \<lparr>reply = Inl r, db = s, trx = t\<rparr>
      | None \<Rightarrow>
          \<lparr>reply = Inr (send_error ''This request not performed'' e), db = s,
           trx = Some RolledBack\<rparr>)"

section \<open>store\<close>

record item_input =
  in_product_id :: string
  in_quantity :: nat

record order_request =
  rq_user_id :: "nat option"
  rq_items :: "item_input list option"
  rq_status :: "string option"

text \<open>
  The checks the database makes on a row it is asked to write (NOT NULL, foreign keys,
  column types). The migrations of the two tables are not among the sources, so the
  checks are parameters; a refused row raises \<open>DatabaseError\<close>.
\<close>

record constraints =
  order_ok :: "order \<Rightarrow> bool"
  item_ok :: "order_item \<Rightarrow> bool"

definition Order_create ::
  "constraints \<Rightarrow> tables \<Rightarrow> nat option \<Rightarrow> string option \<Rightarrow> js_error + order \<times> tables" where
  "Order_create ck t uid st =
     (let r = \<lparr>o_id = next_id (map o_id (orders t)), o_user_id = uid, o_status = st,
               o_deleted_at = None\<rparr>
      in if order_ok ck r then Inr (r, t\<lparr>orders := orders t @ [r]\<rparr>)
         else Inl DatabaseError)"

definition OrderItem_create ::
  "constraints \<Rightarrow> tables \<Rightarrow> nat \<Rightarrow> item_input \<Rightarrow> js_error + tables" where
  "OrderItem_create ck t oid x =
     (let r = \<lparr>i_id = next_id (map i_id (order_items t)), i_order_id = oid,
               i_product_id = in_product_id x, i_quantity = in_quantity x\<rparr>
      in if item_ok ck r then Inr (t\<lparr>order_items := order_items t @ [r]\<rparr>)
         else Inl DatabaseError)"

text \<open>Modelled from the spec: \<open>syncItems\<close> of the order service, which is not among the
  sources, "inserts one OrderItem per entry in items". The entries are inserted in
  order; the first refused row raises, and the rows inserted before it stay in the
  transaction.\<close>

fun syncItems ::
  "constraints \<Rightarrow> nat \<Rightarrow> item_input list \<Rightarrow> tables \<Rightarrow> js_error option \<times> tables" where
  "syncItems ck oid [] t = (None, t)"
| "syncItems ck oid (x # xs) t =
     (case OrderItem_create ck t oid x of
        Inl e \<Rightarrow> (Some e, t)
      | Inr t' \<Rightarrow> syncItems ck oid xs t')"

definition items_of :: "tables \<Rightarrow> nat \<Rightarrow> order_item list" where
  "items_of s oid = filter (\<lambda>r. i_order_id r = oid) (order_items s)"

text \<open>The response of \<open>store\<close> after the commit: the order read back and transformed
  with its items.\<close>

definition hydrate :: "tables \<Rightarrow> nat \<Rightarrow> body" where
  "hydrate s oid =
     (case Order_find s oid of
        None \<Rightarrow> NullBody
      | Some r \<Rightarrow> OrderBody r (items_of s oid))"

definition store :: "constraints \<Rightarrow> tables \<Rightarrow> order_request \<Rightarrow> outcome" where
  "store ck s rq =
     (let t0 = beginTransaction s
      in case Order_create ck t0 (rq_user_id rq) (rq_status rq) of
           Inl e \<Rightarrow> catch_rollback scope_store_catch s (Some Open) e
         | Inr (r, t1) \<Rightarrow>
             (case (case rq_items rq of
                      None \<Rightarrow> (None, t1)
                    | Some xs \<Rightarrow>
                        if length xs > 0 then syncItems ck (o_id r) xs t1 else (None, t1)) of
                (Some e, t2) \<Rightarrow> catch_rollback scope_store_catch s (Some Open) e
              | (None, t2) \<Rightarrow>
                  (let s' = commit t2
                   in \<lparr>reply = Inr \<lparr>status = 201, body = hydrate s' (o_id r)\<rparr>, db = s',
                       trx = Some Committed\<rparr>)))"

section \<open>show\<close>

definition show_order :: "tables \<Rightarrow> nat \<Rightarrow> outcome" where
  "show_order s i =
     (case Order_findOrFail s i of
        Inl e \<Rightarrow>
          \<lparr>reply = Inr (send_error ''This request not performed'' e), db = s, trx = None\<rparr>
      | Inr r \<Rightarrow>
          \<lparr>reply = Inr \<lparr>status = 200, body = OrderBody r (items_of s (o_id r))\<rparr>, db = s,
           trx = None\<rparr>)"

section \<open>update\<close>

text \<open>\<open>order.merge({user_id, status})\<close>: a field the request leaves undefined is not
  written.\<close>

definition Order_merge :: "order \<Rightarrow> order_request \<Rightarrow> order" where
  "Order_merge r rq =
     r\<lparr>o_user_id := (case rq_user_id rq of None \<Rightarrow> o_user_id r | Some u \<Rightarrow> Some u),
       o_status := (case rq_status rq of None \<Rightarrow> o_status r | Some v \<Rightarrow> Some v)\<rparr>"

text \<open>\<open>order.save(trx)\<close>: an UPDATE of the two merged columns where the primary key is
  the order's id.\<close>

definition Order_save :: "constraints \<Rightarrow> tables \<Rightarrow> order \<Rightarrow> js_error + tables" where
  "Order_save ck t r =
     (if order_ok ck r
      then Inr (t\<lparr>orders :=
                   map (\<lambda>x. if o_id x = o_id r
                             then x\<lparr>o_user_id := o_user_id r, o_status := o_status r\<rparr>
                             else x) (orders t)\<rparr>)
      else Inl DatabaseError)"

definition entry_of :: "order_item \<Rightarrow> item_input" where
  "entry_of r = \<lparr>in_product_id = i_product_id r, in_quantity = i_quantity r\<rparr>"

datatype item_write = DeleteItem nat | InsertItem item_input

text \<open>Modelled from the spec: \<open>syncUpdateItems\<close> of the order service, which is not
  among the sources, "reconciles existing OrderItems to exactly match the provided
  list (additions inserted, removals deleted, unchanged entries left intact)". These
  are the writes it issues, one at a time: a delete for each row of the order whose
  entry is not in the list, then an insert for each entry of the list that no row of
  the order has. Without a list there is nothing to reconcile.\<close>

definition syncUpdateItems_writes ::
  "tables \<Rightarrow> nat \<Rightarrow> item_input list option \<Rightarrow> item_write list" where
  "syncUpdateItems_writes t oid items =
     (case items of
        None \<Rightarrow> []
      | Some xs \<Rightarrow>
          map (\<lambda>r. DeleteItem (i_id r))
            (filter (\<lambda>r. entry_of r \<notin> set xs) (items_of t oid))
          @ map InsertItem
              (filter (\<lambda>x. x \<notin> set (map entry_of (items_of t oid))) (remdups xs)))"

definition apply_write ::
  "constraints \<Rightarrow> nat \<Rightarrow> tables \<Rightarrow> item_write \<Rightarrow> js_error + tables" where
  "apply_write ck oid t w =
     (case w of
        DeleteItem k \<Rightarrow> Inr (t\<lparr>order_items := filter (\<lambda>r. i_id r \<noteq> k) (order_items t)\<rparr>)
      | InsertItem x \<Rightarrow> OrderItem_create ck t oid x)"

text \<open>The writes run in order; a refused write rejects the promise of
  \<open>syncUpdateItems\<close> and the writes after it are not issued.\<close>

fun run_writes :: "constraints \<Rightarrow> nat \<Rightarrow> item_write list \<Rightarrow> tables \<Rightarrow> tables" where
  "run_writes ck oid [] t = t"
| "run_writes ck oid (w # ws) t =
     (case apply_write ck oid t w of
        Inl e \<Rightarrow> t
      | Inr t' \<Rightarrow> run_writes ck oid ws t')"

text \<open>
  The method calls \<open>service.syncUpdateItems(items)\<close> without \<open>await\<close>: it goes on to
  \<open>order.save(trx)\<close> and \<open>trx.commit()\<close> while the promise is pending, and a rejection
  of the promise does not reach the \<open>catch\<close> block. Nothing in the method fixes how
  many writes of the reconciliation have reached the transaction when it commits:
  that number is the parameter \<open>landed\<close>. A write issued after the commit is refused
  by the finished transaction.
\<close>

definition update ::
  "constraints \<Rightarrow> nat \<Rightarrow> tables \<Rightarrow> nat \<Rightarrow> order_request \<Rightarrow> outcome" where
  "update ck landed s i rq =
     (case Order_findOrFail s i of
        Inl e \<Rightarrow> catch_rollback scope_update_catch s None e
      | Inr r \<Rightarrow>
          (let t0 = beginTransaction s;
               r' = Order_merge r rq;
               t1 = run_writes ck (o_id r)
                      (take landed (syncUpdateItems_writes t0 (o_id r) (rq_items rq))) t0
           in case Order_save ck t1 r' of
                Inl e \<Rightarrow> catch_rollback scope_update_catch s (Some Open) e
              | Inr t2 \<Rightarrow>
                  (let s' = commit t2
                   in \<lparr>reply = Inr \<lparr>status = 200,
                                     body = OrderBody r' (items_of s' (o_id r'))\<rparr>,
                       db = s', trx = Some Committed\<rparr>)))"

section \<open>Observations\<close>

text \<open>The Discount rows that link an order and a coupon, and those of them that are
  not soft-deleted.\<close>

definition pair_rows :: "tables \<Rightarrow> nat \<Rightarrow> nat \<Rightarrow> discount list" where
  "pair_rows s oid cid =
     filter (\<lambda>x. d_order_id x = oid \<and> d_coupon_id x = cid) (discounts s)"

definition active_pair_rows :: "tables \<Rightarrow> nat \<Rightarrow> nat \<Rightarrow> discount list" where
  "active_pair_rows s oid cid = filter (\<lambda>x. d_deleted_at x = None) (pair_rows s oid cid)"

text \<open>A sequence of discount requests, each run on the tables the one before left.\<close>

datatype discount_call =
    ApplyDiscount nat apply_request
  | RemoveDiscount timestamp remove_request

fun run_calls ::
  "(string \<Rightarrow> string) \<Rightarrow> (tables \<Rightarrow> order \<Rightarrow> coupon \<Rightarrow> bool) \<Rightarrow> tables \<Rightarrow>
     discount_call list \<Rightarrow> tables" where
  "run_calls up can s [] = s"
| "run_calls up can s (ApplyDiscount i rq # cs) =
     run_calls up can (db (applyDiscount up can s i rq)) cs"
| "run_calls up can s (RemoveDiscount now rq # cs) =
     run_calls up can (db (removeDiscount now s rq)) cs"

text \<open>The \<open>error\<close> field of the body a caller receives, when the body has one.\<close>

definition error_field :: "outcome \<Rightarrow> stack_trace option" where
  "error_field r =
     (case reply r of
        Inl e \<Rightarrow> None
      | Inr rsp \<Rightarrow> (case body rsp of ErrorBody m st \<Rightarrow> st | _ \<Rightarrow> None))"

definition status_of :: "outcome \<Rightarrow> nat option" where
  "status_of r = (case reply r of Inl e \<Rightarrow> None | Inr rsp \<Rightarrow> Some (status rsp))"

text \<open>The rows of the page a listing returned.\<close>

definition listed :: "outcome \<Rightarrow> order list" where
  "listed r =
     (case reply r of
        Inl e \<Rightarrow> []
      | Inr rsp \<Rightarrow> (case body rsp of PageBody p \<Rightarrow> p_data p | _ \<Rightarrow> []))"

text \<open>The items list of a request, empty when the request has none.\<close>

definition requested_items :: "order_request \<Rightarrow> item_input list" where
  "requested_items rq = (case rq_items rq of None \<Rightarrow> [] | Some xs \<Rightarrow> xs)"

text \<open>The entries the rows of an order stand for.\<close>

definition entries_of :: "tables \<Rightarrow> nat \<Rightarrow> item_input set" where
  "entries_of s oid = set (map entry_of (items_of s oid))"

section \<open>Example tables\<close>

definition ex_order :: order where
  "ex_order = \<lparr>o_id = 1, o_user_id = Some 5, o_status = Some ''pending'', o_deleted_at = None\<rparr>"

definition ex_coupon :: coupon where
  "ex_coupon = \<lparr>c_id = 1, c_code = ''SAVE10'', c_recursive = False\<rparr>"

text \<open>An order without discounts; the same order after the coupon was applied; and
  after that discount was removed at time 7.\<close>

definition ex_fresh :: tables where
  "ex_fresh = \<lparr>orders = [ex_order], order_items = [], coupons = [ex_coupon], discounts = []\<rparr>"

definition ex_applied :: tables where
  "ex_applied =
     ex_fresh\<lparr>discounts :=
       [\<lparr>d_id = 1, d_order_id = 1, d_coupon_id = 1, d_deleted_at = None\<rparr>]\<rparr>"

definition ex_removed :: tables where
  "ex_removed =
     ex_fresh\<lparr>discounts :=
       [\<lparr>d_id = 1, d_order_id = 1, d_coupon_id = 1, d_deleted_at = Some 7\<rparr>]\<rparr>"

text \<open>Three orders for the listing.\<close>

definition ex_orders :: tables where
  "ex_orders =
     \<lparr>orders = [\<lparr>o_id = 1, o_user_id = Some 5, o_status = Some ''pending'', o_deleted_at = None\<rparr>,
                \<lparr>o_id = 2, o_user_id = Some 5, o_status = Some ''paid'', o_deleted_at = None\<rparr>,
                \<lparr>o_id = 3, o_user_id = Some 6, o_status = Some ''cancelled'', o_deleted_at = None\<rparr>],
      order_items = [], coupons = [], discounts = []\<rparr>"

text \<open>A database with the users 5 and 6: it refuses an order of any other user or of
  none, and an item of quantity 0.\<close>

definition ex_checks :: constraints where
  "ex_checks =
     \<lparr>order_ok = (\<lambda>r. o_user_id r = Some 5 \<or> o_user_id r = Some 6),
      item_ok = (\<lambda>r. 0 < i_quantity r)\<rparr>"

text \<open>The order of \<open>ex_fresh\<close> with one item, and a request that replaces the item by
  three others.\<close>

definition ex_with_item :: tables where
  "ex_with_item =
     ex_fresh\<lparr>order_items :=
       [\<lparr>i_id = 1, i_order_id = 1, i_product_id = ''P1'', i_quantity = 2\<rparr>]\<rparr>"

definition ex_replace :: order_request where
  "ex_replace =
     \<lparr>rq_user_id = None,
      rq_items = Some [\<lparr>in_product_id = ''P2'', in_quantity = 1\<rparr>,
                       \<lparr>in_product_id = ''P3'', in_quantity = 1\<rparr>,
                       \<lparr>in_product_id = ''P4'', in_quantity = 1\<rparr>],
      rq_status = None\<rparr>"

definition ex_empty :: tables where
  "ex_empty = \<lparr>orders = [], order_items = [], coupons = [], discounts = []\<rparr>"

section \<open>Lemmas on the primitives\<close>

lemma find_SomeD: "find P xs = Some x \<Longrightarrow> x \<in> set xs \<and> P x"
  by (induction xs) (auto split: if_splits)

lemma find_None_filter: "find P xs = None \<longleftrightarrow> filter P xs = []"
  by (induction xs) auto

lemma findOrCreate_pair_rows:
  "pair_rows (Discount_findOrCreate s oid cid) oid cid \<noteq> []"
proof (cases "find (\<lambda>r. d_order_id r = oid \<and> d_coupon_id r = cid) (discounts s)")
  case None
  then show ?thesis by (simp add: Discount_findOrCreate_def pair_rows_def)
next
  case (Some a)
  then have "filter (\<lambda>r. d_order_id r = oid \<and> d_coupon_id r = cid) (discounts s) \<noteq> []"
    using find_None_filter[of "\<lambda>r. d_order_id r = oid \<and> d_coupon_id r = cid" "discounts s"]
    by simp
  with Some show ?thesis by (simp add: Discount_findOrCreate_def pair_rows_def)
qed

lemma findOrCreate_new:
  assumes "pair_rows s oid cid = []"
  shows "discounts (Discount_findOrCreate s oid cid) =
     discounts s @ [\<lparr>d_id = next_id (map d_id (discounts s)), d_order_id = oid,
                     d_coupon_id = cid, d_deleted_at = None\<rparr>]"
proof -
  have "find (\<lambda>r. d_order_id r = oid \<and> d_coupon_id r = cid) (discounts s) = None"
    using assms by (simp add: find_None_filter pair_rows_def)
  then show ?thesis by (simp add: Discount_findOrCreate_def)
qed

lemma resolve_orders:
  "resolve scope_applyDiscount_try ''orders'' = Some (ReferenceError ''orders'')"
  by (simp add: resolve_def scope_applyDiscount_try_def module_scope_def)



section \<open>The stacking rule and the recording of a discount\<close>









section \<open>Re-applying a coupon\<close>

lemma findOrCreate_other:
  "pair_rows s oid cid \<noteq> [] \<Longrightarrow>
   pair_rows (Discount_findOrCreate s o' c') oid cid = pair_rows s oid cid"
proof (cases "find (\<lambda>r. d_order_id r = o' \<and> d_coupon_id r = c') (discounts s)")
  case None
  assume ne: "pair_rows s oid cid \<noteq> []"
  from None have "pair_rows s o' c' = []" by (simp add: find_None_filter pair_rows_def)
  with ne have "\<not> (o' = oid \<and> c' = cid)" by auto
  with None show ?thesis by (auto simp: Discount_findOrCreate_def pair_rows_def)
next
  case (Some a)
  then show ?thesis by (simp add: Discount_findOrCreate_def)
qed

lemma findOrCreate_count:
  "length (pair_rows (Discount_findOrCreate s o' c') oid cid) \<le> max 1 (length (pair_rows s oid cid))"
proof (cases "pair_rows s oid cid = []")
  case True
  show ?thesis
  proof (cases "find (\<lambda>r. d_order_id r = o' \<and> d_coupon_id r = c') (discounts s)")
    case None
    with True show ?thesis by (auto simp: Discount_findOrCreate_def pair_rows_def)
  next
    case (Some a)
    then show ?thesis by (simp add: Discount_findOrCreate_def)
  qed
next
  case False
  then show ?thesis by (simp add: findOrCreate_other)
qed

lemma active_le: "length (active_pair_rows s oid cid) \<le> length (pair_rows s oid cid)"
  by (simp add: active_pair_rows_def)

lemma findOrCreate_active_count:
  "length (active_pair_rows (Discount_findOrCreate s o' c') oid cid)
     \<le> max 1 (length (active_pair_rows s oid cid))"
proof (cases "pair_rows s oid cid = []")
  case True
  have "length (active_pair_rows (Discount_findOrCreate s o' c') oid cid)
        \<le> length (pair_rows (Discount_findOrCreate s o' c') oid cid)" by (rule active_le)
  also have "\<dots> \<le> max 1 (length (pair_rows s oid cid))" by (rule findOrCreate_count)
  also have "\<dots> = 1" using True by simp
  finally show ?thesis by simp
next
  case False
  then show ?thesis by (simp add: findOrCreate_other active_pair_rows_def)
qed

lemma applyDiscount_db_cases:
  "db (applyDiscount up can s i rq) = s
   \<or> (\<exists>o' c'. db (applyDiscount up can s i rq) = Discount_findOrCreate s o' c')"
  by (auto simp: applyDiscount_def resolve_orders catch_applyDiscount_def Let_def
      split: option.splits sum.splits)

lemma applyDiscount_pair_count:
  "length (pair_rows (db (applyDiscount up can s i rq)) oid cid) \<le> max 1 (length (pair_rows s oid cid))"
  using applyDiscount_db_cases[of up can s i rq] findOrCreate_count[of s _ _ oid cid]
  by auto

lemma applyDiscount_active_count:
  "length (active_pair_rows (db (applyDiscount up can s i rq)) oid cid)
     \<le> max 1 (length (active_pair_rows s oid cid))"
  using applyDiscount_db_cases[of up can s i rq] findOrCreate_active_count[of s _ _ oid cid]
  by auto

lemma applyDiscount_keeps_pair:
  "pair_rows s oid cid \<noteq> [] \<Longrightarrow>
   pair_rows (db (applyDiscount up can s i rq)) oid cid = pair_rows s oid cid"
  using applyDiscount_db_cases[of up can s i rq] findOrCreate_other[of s oid cid]
  by auto

lemma save_rows:
  "length (filter (\<lambda>x. d_order_id x = oid \<and> d_coupon_id x = cid)
     (map (\<lambda>x. if d_id x = k then x\<lparr>d_deleted_at := v\<rparr> else x) xs))
   = length (filter (\<lambda>x. d_order_id x = oid \<and> d_coupon_id x = cid) xs)"
  by (induction xs) auto

lemma save_pair_count:
  "length (pair_rows (Discount_save s d) oid cid) = length (pair_rows s oid cid)"
  unfolding Discount_save_def pair_rows_def
  using save_rows[of oid cid "d_id d" "d_deleted_at d" "discounts s"] by simp

lemma removeDiscount_pair_count:
  "length (pair_rows (db (removeDiscount now s rq)) oid cid) = length (pair_rows s oid cid)"
  by (simp add: removeDiscount_def save_pair_count Let_def split: sum.splits)

lemma run_calls_pair_count:
  "length (pair_rows (run_calls up can s cs) oid cid) \<le> max 1 (length (pair_rows s oid cid))"
proof (induction cs arbitrary: s)
  case Nil
  then show ?case by simp
next
  case (Cons a cs)
  show ?case
  proof (cases a)
    case (ApplyDiscount i rq)
    have "length (pair_rows (run_calls up can (db (applyDiscount up can s i rq)) cs) oid cid)
          \<le> max 1 (length (pair_rows (db (applyDiscount up can s i rq)) oid cid))"
      by (rule Cons.IH)
    also have "\<dots> \<le> max 1 (length (pair_rows s oid cid))"
      using applyDiscount_pair_count[of up can s i rq oid cid] by simp
    finally show ?thesis using ApplyDiscount by simp
  next
    case (RemoveDiscount now rq)
    have "length (pair_rows (run_calls up can (db (removeDiscount now s rq)) cs) oid cid)
          \<le> max 1 (length (pair_rows (db (removeDiscount now s rq)) oid cid))"
      by (rule Cons.IH)
    then show ?thesis using RemoveDiscount by (simp add: removeDiscount_pair_count)
  qed
qed

text \<open>
  Claim C2. \<open>applyDiscount\<close> is idempotent on Discount rows: when a row already links
  an order and a coupon, a further application leaves the rows of that pair as they
  are, so it creates no second row; the number of rows of a pair, and of its active
  rows, never grows beyond one when it was at most one; and after any sequence of
  \<open>applyDiscount\<close> and \<open>removeDiscount\<close> calls a pair that had at most one row has at
  most one active row.
\<close>

theorem applyDiscount_idempotent:
  "(pair_rows s oid cid \<noteq> [] \<longrightarrow>
      pair_rows (db (applyDiscount up can s i rq)) oid cid = pair_rows s oid cid)
   \<and> length (pair_rows (db (applyDiscount up can s i rq)) oid cid)
        \<le> max 1 (length (pair_rows s oid cid))
   \<and> length (active_pair_rows (db (applyDiscount up can s i rq)) oid cid)
        \<le> max 1 (length (active_pair_rows s oid cid))
   \<and> length (active_pair_rows (run_calls up can s cs) oid cid)
        \<le> max 1 (length (pair_rows s oid cid))"
proof -
  have "length (active_pair_rows (run_calls up can s cs) oid cid)
        \<le> length (pair_rows (run_calls up can s cs) oid cid)" by (rule active_le)
  also have "\<dots> \<le> max 1 (length (pair_rows s oid cid))" by (rule run_calls_pair_count)
  finally have seq: "length (active_pair_rows (run_calls up can s cs) oid cid)
        \<le> max 1 (length (pair_rows s oid cid))" .
  show ?thesis
    using applyDiscount_keeps_pair[of s oid cid up can i rq]
      applyDiscount_pair_count[of up can s i rq oid cid]
      applyDiscount_active_count[of up can s i rq oid cid] seq
    by blast
qed

theorem applyDiscount_idempotent_witness:
  "pair_rows ex_applied 1 1 \<noteq> []
   \<and> pair_rows (db (applyDiscount ascii_toUpperCase (\<lambda>s r c. c_recursive c) ex_applied 1 \<lparr>rq_code = Some ''save10''\<rparr>)) 1 1
       = [\<lparr>d_id = 1, d_order_id = 1, d_coupon_id = 1, d_deleted_at = None\<rparr>]
   \<and> length (active_pair_rows
        (run_calls ascii_toUpperCase (\<lambda>s r c. True) ex_fresh
           [ApplyDiscount 1 \<lparr>rq_code = Some ''save10''\<rparr>,
            ApplyDiscount 1 \<lparr>rq_code = Some ''save10''\<rparr>]) 1 1) \<le> 1"
proof -
  have ne: "pair_rows ex_applied 1 1 \<noteq> []"
    by (simp add: pair_rows_def ex_applied_def ex_fresh_def)
  have eq: "pair_rows ex_applied 1 1 = [\<lparr>d_id = 1, d_order_id = 1, d_coupon_id = 1, d_deleted_at = None\<rparr>]"
    by (simp add: pair_rows_def ex_applied_def ex_fresh_def)
  have z: "pair_rows ex_fresh 1 1 = []"
    by (simp add: pair_rows_def ex_fresh_def)
  show ?thesis
    using applyDiscount_idempotent[of ex_applied 1 1 ascii_toUpperCase "\<lambda>s r c. c_recursive c" 1 "\<lparr>rq_code = Some ''save10''\<rparr>" "[]"]
      applyDiscount_idempotent[of ex_fresh 1 1 ascii_toUpperCase "\<lambda>s r c. True" 1 "\<lparr>rq_code = Some ''save10''\<rparr>"
         "[ApplyDiscount 1 \<lparr>rq_code = Some ''save10''\<rparr>, ApplyDiscount 1 \<lparr>rq_code = Some ''save10''\<rparr>]"]
      ne eq z
    by simp
qed

section \<open>The reply of applyDiscount\<close>

lemma applyDiscount_reply:
  assumes "rq_code rq = Some cd"
    and "Coupon_findByOrFail_code s (up cd) = Inr c"
    and "Order_findOrFail s i = Inr r"
  shows "reply (applyDiscount up can s i rq) =
           Inr (send_error ''Error coupon clould not be apllied'' (ReferenceError ''orders''))"
  using assms by (simp add: applyDiscount_def resolve_orders catch_applyDiscount_def Let_def)

text \<open>
  Claim C3, evaluated on the order of \<open>ex_applied\<close>, which has one active discount,
  and the non-recursive coupon SAVE10: both resolve and the stacking rule rejects the
  coupon, and the reply is the 400 response of the \<open>catch\<close> block, carrying the
  ReferenceError that reading \<open>orders\<close> raised, not a 200 response with
  \<open>info.success = false\<close>.
\<close>

theorem applyDiscount_rejection_is_error:
  "reply (applyDiscount ascii_toUpperCase (\<lambda>s r c. True) ex_applied 1 \<lparr>rq_code = Some ''SAVE10''\<rparr>) =
     Inr \<lparr>status = 400,
          body = ErrorBody ''Error coupon clould not be apllied''
                   (Some (StackOf (ReferenceError ''orders'')))\<rparr>
   \<and> coupons_getCount ex_applied ex_order = 1
   \<and> canApplyToOrder 1 ex_coupon = False"
  by (simp add: applyDiscount_def ascii_toUpperCase_def Coupon_findByOrFail_code_def Order_findOrFail_def
      Order_find_def ex_applied_def ex_fresh_def ex_coupon_def ex_order_def coupons_getCount_def
      canApplyToOrder_def resolve_orders catch_applyDiscount_def send_error_def stack_def)

section \<open>removeDiscount\<close>

lemma find_map_same:
  "(\<And>x. P (f x) = P x) \<Longrightarrow> find P (map f xs) = map_option f (find P xs)"
  by (induction xs) auto

lemma refind_after_save:
  assumes "find (\<lambda>r. d_id r = k) (discounts s) = Some d"
  shows "find (\<lambda>r. d_id r = k) (discounts (Discount_save s (d\<lparr>d_deleted_at := Some now\<rparr>)))
         = Some (d\<lparr>d_deleted_at := Some now\<rparr>)"
proof -
  from assms have k: "d_id d = k" using find_SomeD by fastforce
  have "find (\<lambda>r. d_id r = k)
          (map (\<lambda>x. if d_id x = k then x\<lparr>d_deleted_at := Some now\<rparr> else x) (discounts s))
        = map_option (\<lambda>x. if d_id x = k then x\<lparr>d_deleted_at := Some now\<rparr> else x)
            (find (\<lambda>r. d_id r = k) (discounts s))"
    by (rule find_map_same) simp
  moreover have "discounts (Discount_save s (d\<lparr>d_deleted_at := Some now\<rparr>))
      = map (\<lambda>x. if d_id x = k then x\<lparr>d_deleted_at := Some now\<rparr> else x) (discounts s)"
    using k by (simp add: Discount_save_def)
  ultimately show ?thesis using assms k by simp
qed

text \<open>
  Claim C8, as amended. When \<open>discount_id\<close> resolves to a Discount row,
  \<open>removeDiscount\<close> answers 200 with the row and sets \<open>deleted_at\<close> of that row to the
  current time, and nothing else changes; the row still resolves afterwards, so a
  second call on the removed discount answers 200 again and stamps the row anew. When
  \<open>discount_id\<close> does not resolve, the reply is the 400 error response and the tables
  are unchanged; an id that no row has raises ModelNotFoundException.
\<close>

theorem removeDiscount_soft_delete:
  "(Discount_findOrFail s (rq_discount_id rq) = Inr d \<longrightarrow>
       reply (removeDiscount now s rq) =
         Inr \<lparr>status = 200, body = DiscountBody (d\<lparr>d_deleted_at := Some now\<rparr>)\<rparr>
     \<and> discounts (db (removeDiscount now s rq)) =
         map (\<lambda>x. if d_id x = d_id d then x\<lparr>d_deleted_at := Some now\<rparr> else x) (discounts s)
     \<and> Discount_findOrFail (db (removeDiscount now s rq)) (rq_discount_id rq) =
         Inr (d\<lparr>d_deleted_at := Some now\<rparr>)
     \<and> reply (removeDiscount later (db (removeDiscount now s rq)) rq) =
         Inr \<lparr>status = 200, body = DiscountBody (d\<lparr>d_deleted_at := Some later\<rparr>)\<rparr>)
   \<and> (Discount_findOrFail s (rq_discount_id rq) = Inl e \<longrightarrow>
       reply (removeDiscount now s rq) = Inr (send_error ''This request not performed'' e)
     \<and> db (removeDiscount now s rq) = s)
   \<and> (rq_discount_id rq = Some k \<and> k \<notin> set (map d_id (discounts s)) \<longrightarrow>
       Discount_findOrFail s (rq_discount_id rq) = Inl ModelNotFoundException)"
proof -
  have found: "Discount_findOrFail s (rq_discount_id rq) = Inr d \<Longrightarrow>
       reply (removeDiscount now s rq) =
         Inr \<lparr>status = 200, body = DiscountBody (d\<lparr>d_deleted_at := Some now\<rparr>)\<rparr>
     \<and> discounts (db (removeDiscount now s rq)) =
         map (\<lambda>x. if d_id x = d_id d then x\<lparr>d_deleted_at := Some now\<rparr> else x) (discounts s)
     \<and> Discount_findOrFail (db (removeDiscount now s rq)) (rq_discount_id rq) =
         Inr (d\<lparr>d_deleted_at := Some now\<rparr>)" for s d now
  proof -
    assume a: "Discount_findOrFail s (rq_discount_id rq) = Inr d"
    then obtain k where k: "rq_discount_id rq = Some k"
      and f: "find (\<lambda>r. d_id r = k) (discounts s) = Some d"
      by (auto simp: Discount_findOrFail_def split: option.splits)
    have again: "find (\<lambda>r. d_id r = k) (discounts (Discount_save s (d\<lparr>d_deleted_at := Some now\<rparr>)))
         = Some (d\<lparr>d_deleted_at := Some now\<rparr>)"
      using f by (rule refind_after_save)
    show ?thesis
      using a k again
      by (simp add: removeDiscount_def Let_def Discount_save_def Discount_findOrFail_def)
  qed
  have twice: "Discount_findOrFail s (rq_discount_id rq) = Inr d \<Longrightarrow>
     reply (removeDiscount later (db (removeDiscount now s rq)) rq) =
         Inr \<lparr>status = 200, body = DiscountBody (d\<lparr>d_deleted_at := Some later\<rparr>)\<rparr>"
  proof -
    assume a: "Discount_findOrFail s (rq_discount_id rq) = Inr d"
    from found[OF a, of now]
    have "Discount_findOrFail (db (removeDiscount now s rq)) (rq_discount_id rq) =
         Inr (d\<lparr>d_deleted_at := Some now\<rparr>)" by simp
    from found[OF this, of later] show ?thesis by simp
  qed
  have missing: "Discount_findOrFail s (rq_discount_id rq) = Inl e \<Longrightarrow>
       reply (removeDiscount now s rq) = Inr (send_error ''This request not performed'' e)
     \<and> db (removeDiscount now s rq) = s"
    by (simp add: removeDiscount_def)
  have nf: "rq_discount_id rq = Some k \<and> k \<notin> set (map d_id (discounts s)) \<Longrightarrow>
       Discount_findOrFail s (rq_discount_id rq) = Inl ModelNotFoundException"
  proof -
    assume a: "rq_discount_id rq = Some k \<and> k \<notin> set (map d_id (discounts s))"
    then have "filter (\<lambda>r. d_id r = k) (discounts s) = []"
      by (auto simp: filter_empty_conv)
    then have "find (\<lambda>r. d_id r = k) (discounts s) = None" by (simp add: find_None_filter)
    with a show ?thesis by (simp add: Discount_findOrFail_def)
  qed
  show ?thesis using found[of s d now] twice missing nf by blast
qed

theorem removeDiscount_soft_delete_witness:
  "Discount_findOrFail ex_applied (rq_discount_id \<lparr>rq_discount_id = Some 1\<rparr>) =
      Inr \<lparr>d_id = 1, d_order_id = 1, d_coupon_id = 1, d_deleted_at = None\<rparr>
   \<and> db (removeDiscount 7 ex_applied \<lparr>rq_discount_id = Some 1\<rparr>) = ex_removed
   \<and> reply (removeDiscount 9 (db (removeDiscount 7 ex_applied \<lparr>rq_discount_id = Some 1\<rparr>))
        \<lparr>rq_discount_id = Some 1\<rparr>) =
      Inr \<lparr>status = 200, body = DiscountBody \<lparr>d_id = 1, d_order_id = 1, d_coupon_id = 1, d_deleted_at = Some 9\<rparr>\<rparr>
   \<and> Discount_findOrFail ex_fresh (rq_discount_id \<lparr>rq_discount_id = Some 42\<rparr>) = Inl ModelNotFoundException
   \<and> reply (removeDiscount 7 ex_fresh \<lparr>rq_discount_id = Some 42\<rparr>) =
       Inr (send_error ''This request not performed'' ModelNotFoundException)"
proof -
  have h1: "Discount_findOrFail ex_applied (rq_discount_id \<lparr>rq_discount_id = Some 1\<rparr>) =
      Inr \<lparr>d_id = 1, d_order_id = 1, d_coupon_id = 1, d_deleted_at = None\<rparr>"
    by (simp add: Discount_findOrFail_def ex_applied_def ex_fresh_def)
  have h2: "rq_discount_id \<lparr>rq_discount_id = Some 42\<rparr> = Some 42
      \<and> 42 \<notin> set (map d_id (discounts ex_fresh))"
    by (simp add: ex_fresh_def)
  have d: "db (removeDiscount 7 ex_applied \<lparr>rq_discount_id = Some 1\<rparr>) = ex_removed"
    by (simp add: removeDiscount_def Discount_findOrFail_def ex_applied_def ex_fresh_def ex_removed_def Discount_save_def Let_def)
  from removeDiscount_soft_delete[of ex_applied "\<lparr>rq_discount_id = Some 1\<rparr>"
       "\<lparr>d_id = 1, d_order_id = 1, d_coupon_id = 1, d_deleted_at = None\<rparr>" 7 9 ModelNotFoundException 1]
    h1
  have a: "reply (removeDiscount 9 (db (removeDiscount 7 ex_applied \<lparr>rq_discount_id = Some 1\<rparr>))
        \<lparr>rq_discount_id = Some 1\<rparr>) =
      Inr \<lparr>status = 200, body = DiscountBody \<lparr>d_id = 1, d_order_id = 1, d_coupon_id = 1, d_deleted_at = Some 9\<rparr>\<rparr>"
    by simp
  from removeDiscount_soft_delete[of ex_fresh "\<lparr>rq_discount_id = Some 42\<rparr>"
       "\<lparr>d_id = 1, d_order_id = 1, d_coupon_id = 1, d_deleted_at = None\<rparr>" 7 9 ModelNotFoundException 42]
    h2
  have b: "Discount_findOrFail ex_fresh (rq_discount_id \<lparr>rq_discount_id = Some 42\<rparr>) = Inl ModelNotFoundException
   \<and> reply (removeDiscount 7 ex_fresh \<lparr>rq_discount_id = Some 42\<rparr>) =
       Inr (send_error ''This request not performed'' ModelNotFoundException)"
    by simp
  show ?thesis using h1 d a b by simp
qed

text \<open>
  Claim C8 as stated fails: removing the discount of \<open>ex_applied\<close> at time 7 gives
  \<open>ex_removed\<close>, and removing it again at time 9 answers 200, not the not-found
  error.
\<close>

theorem removeDiscount_again_counterexample:
  "db (removeDiscount 7 ex_applied \<lparr>rq_discount_id = Some 1\<rparr>) = ex_removed
   \<and> status_of (removeDiscount 9 ex_removed \<lparr>rq_discount_id = Some 1\<rparr>) = Some 200
   \<and> reply (removeDiscount 9 ex_removed \<lparr>rq_discount_id = Some 1\<rparr>)
       \<noteq> Inr (send_error ''This request not performed'' ModelNotFoundException)"
  by (simp add: removeDiscount_def Discount_findOrFail_def ex_applied_def ex_fresh_def
      ex_removed_def Discount_save_def status_of_def send_error_def Let_def)

section \<open>Failure replies\<close>

lemma resolve_trx_store: "resolve scope_store_catch ''trx'' = None"
  by (simp add: resolve_def scope_store_catch_def module_scope_def)

lemma resolve_trx_update: "resolve scope_update_catch ''trx'' = Some (ReferenceError ''trx'')"
  by (simp add: resolve_def scope_update_catch_def module_scope_def)

lemma catch_store:
  "catch_rollback scope_store_catch s t e =
     \<lparr>reply = Inr (send_error ''This request not performed'' e), db = s, trx = Some RolledBack\<rparr>"
  by (simp add: catch_rollback_def resolve_trx_store)

lemma catch_update:
  "catch_rollback scope_update_catch s t e = \<lparr>reply = Inl (ReferenceError ''trx''), db = s, trx = t\<rparr>"
  by (simp add: catch_rollback_def resolve_trx_update)

lemma error_field_send_error:
  "reply r = Inr (send_error msg e) \<Longrightarrow> error_field r = Some (StackOf e)"
  by (simp add: error_field_def send_error_def stack_def)

lemma index_failure:
  "status_of (index s rq pg) \<noteq> Some 200 \<Longrightarrow>
   \<exists>e. reply (index s rq pg) = Inr (send_error ''This request not performed'' e)"
  by (auto simp: index_def status_of_def split: option.splits sum.splits)

lemma store_failure:
  "status_of (store ck s rq) \<noteq> Some 201 \<Longrightarrow>
   \<exists>e. reply (store ck s rq) = Inr (send_error ''This request not performed'' e)"
  by (auto simp: store_def status_of_def catch_store Let_def split: option.splits sum.splits prod.splits)

lemma show_failure:
  "status_of (show_order s i) \<noteq> Some 200 \<Longrightarrow>
   \<exists>e. reply (show_order s i) = Inr (send_error ''This request not performed'' e)"
  by (auto simp: show_order_def status_of_def split: option.splits sum.splits)

lemma applyDiscount_failure:
  "\<exists>e. reply (applyDiscount up can s i rq) = Inr (send_error ''Error coupon clould not be apllied'' e)"
  by (auto simp: applyDiscount_def resolve_orders catch_applyDiscount_def Let_def
      split: option.splits sum.splits)

lemma removeDiscount_failure:
  "status_of (removeDiscount now s rq) \<noteq> Some 200 \<Longrightarrow>
   \<exists>e. reply (removeDiscount now s rq) = Inr (send_error ''This request not performed'' e)"
  by (auto simp: removeDiscount_def status_of_def Let_def split: option.splits sum.splits)

text \<open>
  Claim C9, as amended. Whenever \<open>index\<close>, \<open>store\<close>, \<open>show\<close> or \<open>removeDiscount\<close>
  does not answer with its success status, and for every call of \<open>applyDiscount\<close>,
  the reply is the 400 response of the method's \<open>catch\<close> block: it carries the
  method's fixed message, and its \<open>error\<close> field holds the stack trace of the
  exception that was caught.
\<close>

theorem failure_reply_carries_stack:
  "(status_of (index s irq pg) \<noteq> Some 200 \<longrightarrow>
      (\<exists>e. reply (index s irq pg) = Inr (send_error ''This request not performed'' e)
          \<and> error_field (index s irq pg) = Some (StackOf e)))
   \<and> (status_of (store ck s orq) \<noteq> Some 201 \<longrightarrow>
      (\<exists>e. reply (store ck s orq) = Inr (send_error ''This request not performed'' e)
          \<and> error_field (store ck s orq) = Some (StackOf e)))
   \<and> (status_of (show_order s i) \<noteq> Some 200 \<longrightarrow>
      (\<exists>e. reply (show_order s i) = Inr (send_error ''This request not performed'' e)
          \<and> error_field (show_order s i) = Some (StackOf e)))
   \<and> (\<exists>e. reply (applyDiscount up can s i arq) =
              Inr (send_error ''Error coupon clould not be apllied'' e)
          \<and> error_field (applyDiscount up can s i arq) = Some (StackOf e))
   \<and> (status_of (removeDiscount now s rrq) \<noteq> Some 200 \<longrightarrow>
      (\<exists>e. reply (removeDiscount now s rrq) = Inr (send_error ''This request not performed'' e)
          \<and> error_field (removeDiscount now s rrq) = Some (StackOf e)))
   \<and> send_error msg e = \<lparr>status = 400, body = ErrorBody msg (Some (StackOf e))\<rparr>"
  using index_failure[of s irq pg] store_failure[of ck s orq] show_failure[of s i]
    applyDiscount_failure[of up can s i arq] removeDiscount_failure[of now s rrq]
  by (auto simp: error_field_send_error send_error_def stack_def)

text \<open>
  Claim C9 as stated fails: removing a discount that does not exist, and creating an
  order the database refuses, each answer 400 with the stack trace of the exception
  in the \<open>error\<close> field.
\<close>

theorem failure_reply_counterexample:
  "status_of (removeDiscount 7 ex_fresh \<lparr>rq_discount_id = Some 42\<rparr>) = Some 400
   \<and> error_field (removeDiscount 7 ex_fresh \<lparr>rq_discount_id = Some 42\<rparr>)
       = Some (StackOf ModelNotFoundException)
   \<and> status_of (store \<lparr>order_ok = (\<lambda>r. o_user_id r \<noteq> None), item_ok = (\<lambda>r. True)\<rparr> ex_fresh
        \<lparr>rq_user_id = None, rq_items = None, rq_status = Some ''pending''\<rparr>) = Some 400
   \<and> error_field (store \<lparr>order_ok = (\<lambda>r. o_user_id r \<noteq> None), item_ok = (\<lambda>r. True)\<rparr> ex_fresh
        \<lparr>rq_user_id = None, rq_items = None, rq_status = Some ''pending''\<rparr>)
       = Some (StackOf DatabaseError)"
  by (simp add: removeDiscount_def Discount_findOrFail_def ex_fresh_def status_of_def
      error_field_def send_error_def stack_def store_def beginTransaction_def Order_create_def
      Let_def catch_store)

theorem failure_reply_carries_stack_witness:
  "status_of (index ex_fresh \<lparr>ix_status = None, ix_id = None\<rparr> None) \<noteq> Some 200
   \<and> error_field (index ex_fresh \<lparr>ix_status = None, ix_id = None\<rparr> None) \<noteq> None
   \<and> status_of (store \<lparr>order_ok = (\<lambda>r. o_user_id r \<noteq> None), item_ok = (\<lambda>r. True)\<rparr> ex_fresh
        \<lparr>rq_user_id = None, rq_items = None, rq_status = Some ''pending''\<rparr>) \<noteq> Some 201
   \<and> error_field (store \<lparr>order_ok = (\<lambda>r. o_user_id r \<noteq> None), item_ok = (\<lambda>r. True)\<rparr> ex_fresh
        \<lparr>rq_user_id = None, rq_items = None, rq_status = Some ''pending''\<rparr>) \<noteq> None
   \<and> status_of (show_order ex_fresh 2) \<noteq> Some 200
   \<and> error_field (show_order ex_fresh 2) \<noteq> None
   \<and> status_of (removeDiscount 7 ex_fresh \<lparr>rq_discount_id = Some 42\<rparr>) \<noteq> Some 200
   \<and> error_field (removeDiscount 7 ex_fresh \<lparr>rq_discount_id = Some 42\<rparr>) \<noteq> None"
proof -
  let ?ck = "\<lparr>order_ok = (\<lambda>r. o_user_id r \<noteq> None), item_ok = (\<lambda>r. True)\<rparr>"
  let ?orq = "\<lparr>rq_user_id = None, rq_items = None, rq_status = Some ''pending''\<rparr>"
  have a: "status_of (index ex_fresh \<lparr>ix_status = None, ix_id = None\<rparr> None) \<noteq> Some 200"
    by (simp add: index_def status_of_def send_error_def)
  have b: "status_of (store ?ck ex_fresh ?orq) \<noteq> Some 201"
    by (simp add: store_def beginTransaction_def Order_create_def Let_def catch_store status_of_def send_error_def)
  have c: "status_of (show_order ex_fresh 2) \<noteq> Some 200"
    by (simp add: show_order_def Order_findOrFail_def Order_find_def ex_fresh_def ex_order_def status_of_def send_error_def)
  have d: "status_of (removeDiscount 7 ex_fresh \<lparr>rq_discount_id = Some 42\<rparr>) \<noteq> Some 200"
    by (simp add: removeDiscount_def Discount_findOrFail_def ex_fresh_def status_of_def send_error_def)
  show ?thesis
    using failure_reply_carries_stack[of ex_fresh "\<lparr>ix_status = None, ix_id = None\<rparr>" None
        ?ck ?orq 2 ascii_toUpperCase "\<lambda>s r c. True" "\<lparr>rq_code = None\<rparr>" 7 "\<lparr>rq_discount_id = Some 42\<rparr>" "''m''" ModelNotFoundException]
      a b c d
    by auto
qed


section \<open>The listing filter\<close>

text \<open>
  Whenever the id field is truthy the query holds the ILIKE clause and is refused, so
  the listing answers 400. With a truthy status alone the listing is the page of the
  orders with that status, and with neither field the page of all orders.
\<close>

lemma index_id_refused:
  "truthy (ix_id rq) \<Longrightarrow>
   reply (index s rq (Some pg)) = Inr (send_error ''This request not performed'' DatabaseError)"
  by (simp add: index_def paginate_def Order_query_fetch_def index_clauses_def)

lemma index_status_only:
  assumes "truthy (ix_status rq)" and "\<not> truthy (ix_id rq)" and "1 \<le> pg_page pg"
  shows "status_of (index s rq (Some pg)) = Some 200
     \<and> listed (index s rq (Some pg)) =
         take (pg_limit pg) (drop (pg_limit pg * (pg_page pg - 1))
           (filter (\<lambda>r. o_status r = ix_status rq) (orders s)))"
proof -
  from assms(1) have "ix_status rq \<noteq> None" by (auto simp: truthy_def split: option.splits)
  then have F: "filter (\<lambda>r. o_status r \<noteq> None \<and> o_status r = ix_status rq) (orders s)
      = filter (\<lambda>r. o_status r = ix_status rq) (orders s)"
    by (intro filter_cong) auto
  from assms show ?thesis
    by (simp add: index_def paginate_def Order_query_fetch_def index_clauses_def listed_def
        status_of_def F del: not_None_eq)
qed

lemma index_no_filter:
  assumes "\<not> truthy (ix_status rq)" and "\<not> truthy (ix_id rq)" and "1 \<le> pg_page pg"
  shows "status_of (index s rq (Some pg)) = Some 200
     \<and> listed (index s rq (Some pg)) =
         take (pg_limit pg) (drop (pg_limit pg * (pg_page pg - 1)) (orders s))"
  using assms
  by (simp add: index_def paginate_def Order_query_fetch_def index_clauses_def listed_def
      status_of_def)

text \<open>
  Claim C10, evaluated on the three orders of \<open>ex_orders\<close>, page 1 of 20. With the
  status \<open>pending\<close> and the id pattern \<open>2\<close> both supplied the method builds the two
  alternatives, status or id, and the database refuses the statement: the reply is the
  400 response of the \<open>catch\<close> block and no order is listed, where the union is the
  orders 1 and 2. The id pattern alone is refused as well. The status alone lists the
  pending order, and no filter lists every order.
\<close>

theorem index_union_is_refused:
  "index_clauses \<lparr>ix_status = Some ''pending'', ix_id = Some ''2''\<rparr>
     = [StatusEq (Some ''pending''), IdILike ''2'']
   \<and> reply (index ex_orders \<lparr>ix_status = Some ''pending'', ix_id = Some ''2''\<rparr>
        (Some \<lparr>pg_page = 1, pg_limit = 20\<rparr>))
     = Inr \<lparr>status = 400,
            body = ErrorBody ''This request not performed'' (Some (StackOf DatabaseError))\<rparr>
   \<and> listed (index ex_orders \<lparr>ix_status = Some ''pending'', ix_id = Some ''2''\<rparr>
        (Some \<lparr>pg_page = 1, pg_limit = 20\<rparr>)) = []
   \<and> status_of (index ex_orders \<lparr>ix_status = None, ix_id = Some ''2''\<rparr>
        (Some \<lparr>pg_page = 1, pg_limit = 20\<rparr>)) = Some 400
   \<and> listed (index ex_orders \<lparr>ix_status = Some ''pending'', ix_id = None\<rparr>
        (Some \<lparr>pg_page = 1, pg_limit = 20\<rparr>))
     = [\<lparr>o_id = 1, o_user_id = Some 5, o_status = Some ''pending'', o_deleted_at = None\<rparr>]
   \<and> listed (index ex_orders \<lparr>ix_status = None, ix_id = None\<rparr>
        (Some \<lparr>pg_page = 1, pg_limit = 20\<rparr>)) = orders ex_orders"
proof -
  let ?pg = "\<lparr>pg_page = 1, pg_limit = 20\<rparr>"
  have c: "index_clauses \<lparr>ix_status = Some ''pending'', ix_id = Some ''2''\<rparr>
     = [StatusEq (Some ''pending''), IdILike ''2'']"
    by (simp add: index_clauses_def truthy_def template_def)
  have both: "reply (index ex_orders \<lparr>ix_status = Some ''pending'', ix_id = Some ''2''\<rparr> (Some ?pg))
     = Inr \<lparr>status = 400,
            body = ErrorBody ''This request not performed'' (Some (StackOf DatabaseError))\<rparr>"
    by (simp add: index_id_refused truthy_def send_error_def stack_def)
  have none_listed: "listed (index ex_orders \<lparr>ix_status = Some ''pending'', ix_id = Some ''2''\<rparr>
        (Some ?pg)) = []"
    unfolding listed_def both by simp
  have id_only: "status_of (index ex_orders \<lparr>ix_status = None, ix_id = Some ''2''\<rparr> (Some ?pg))
      = Some 400"
    by (simp add: status_of_def index_id_refused truthy_def send_error_def)
  have st_only: "listed (index ex_orders \<lparr>ix_status = Some ''pending'', ix_id = None\<rparr> (Some ?pg))
     = [\<lparr>o_id = 1, o_user_id = Some 5, o_status = Some ''pending'', o_deleted_at = None\<rparr>]"
    using index_status_only[of "\<lparr>ix_status = Some ''pending'', ix_id = None\<rparr>" ?pg ex_orders]
    by (simp add: truthy_def ex_orders_def)
  have no_filter: "listed (index ex_orders \<lparr>ix_status = None, ix_id = None\<rparr> (Some ?pg))
      = orders ex_orders"
    using index_no_filter[of "\<lparr>ix_status = None, ix_id = None\<rparr>" ?pg ex_orders]
    by (simp add: truthy_def ex_orders_def)
  from c both none_listed id_only st_only no_filter show ?thesis by simp
qed

section \<open>Creating an order\<close>

lemma syncItems_ok:
  "syncItems ck oid xs t = (None, t') \<Longrightarrow>
   \<exists>rows. t' = t\<lparr>order_items := order_items t @ rows\<rparr>
        \<and> map entry_of rows = xs
        \<and> map i_order_id rows = replicate (length xs) oid"
proof (induction xs arbitrary: t)
  case Nil
  then show ?case by simp
next
  case (Cons x xs)
  from Cons.prems obtain t1 where c: "OrderItem_create ck t oid x = Inr t1"
    and r: "syncItems ck oid xs t1 = (None, t')"
    by (auto split: sum.splits)
  let ?r0 = "\<lparr>i_id = next_id (map i_id (order_items t)), i_order_id = oid,
               i_product_id = in_product_id x, i_quantity = in_quantity x\<rparr>"
  from c have t1: "t1 = t\<lparr>order_items := order_items t @ [?r0]\<rparr>"
    by (simp add: OrderItem_create_def Let_def split: if_splits)
  from Cons.IH[OF r] obtain rows where
    rows: "t' = t1\<lparr>order_items := order_items t1 @ rows\<rparr>"
      "map entry_of rows = xs" "map i_order_id rows = replicate (length xs) oid"
    by blast
  have "t' = t\<lparr>order_items := order_items t @ (?r0 # rows)\<rparr>"
    using rows(1) t1 by simp
  moreover have "map entry_of (?r0 # rows) = x # xs"
    using rows(2) by (simp add: entry_of_def)
  moreover have "map i_order_id (?r0 # rows) = replicate (length (x # xs)) oid"
    using rows(3) by simp
  ultimately show ?case by (intro exI[where x = "?r0 # rows"] conjI)
qed

lemma syncItems_mid_batch:
  "syncItems ck oid xs t = (None, t1) \<Longrightarrow> OrderItem_create ck t1 oid x = Inl e \<Longrightarrow>
   syncItems ck oid (xs @ x # ys) t = (Some e, t1)"
  by (induction xs arbitrary: t) (auto split: sum.splits)

lemma store_create_fails:
  "Order_create ck s (rq_user_id rq) (rq_status rq) = Inl e \<Longrightarrow>
   store ck s rq = \<lparr>reply = Inr (send_error ''This request not performed'' e), db = s,
                    trx = Some RolledBack\<rparr>"
  by (simp add: store_def beginTransaction_def catch_store)

lemma store_sync_fails:
  "Order_create ck s (rq_user_id rq) (rq_status rq) = Inr (r, t) \<Longrightarrow>
   rq_items rq = Some xs \<Longrightarrow> syncItems ck (o_id r) xs t = (Some e, t') \<Longrightarrow>
   store ck s rq = \<lparr>reply = Inr (send_error ''This request not performed'' e), db = s,
                    trx = Some RolledBack\<rparr>"
  by (cases xs) (simp_all add: store_def beginTransaction_def catch_store)

lemma store_not_201:
  "status_of (store ck s rq) \<noteq> Some 201 \<Longrightarrow>
   db (store ck s rq) = s \<and> trx (store ck s rq) = Some RolledBack"
  by (auto simp: store_def status_of_def catch_store Let_def beginTransaction_def
      split: option.splits sum.splits prod.splits if_splits)

text \<open>
  Claim C4. \<open>store\<close> is atomic: when inserting the Order row fails, or inserting the
  items fails, also in the middle of the batch after some rows went into the
  transaction, the \<open>catch\<close> block rolls the transaction back and answers 400, and
  the committed tables are the tables before the call; whenever the reply is not the
  201 response the tables are unchanged and the transaction is rolled back.
\<close>

theorem store_atomic:
  "(Order_create ck s (rq_user_id rq) (rq_status rq) = Inl e \<longrightarrow>
      store ck s rq = \<lparr>reply = Inr (send_error ''This request not performed'' e), db = s,
                       trx = Some RolledBack\<rparr>)
   \<and> (Order_create ck s (rq_user_id rq) (rq_status rq) = Inr (r, t)
        \<and> rq_items rq = Some xs \<and> syncItems ck (o_id r) xs t = (Some e, t') \<longrightarrow>
      store ck s rq = \<lparr>reply = Inr (send_error ''This request not performed'' e), db = s,
                       trx = Some RolledBack\<rparr>)
   \<and> (Order_create ck s (rq_user_id rq) (rq_status rq) = Inr (r, t)
        \<and> rq_items rq = Some (ys @ y # zs) \<and> syncItems ck (o_id r) ys t = (None, t1)
        \<and> OrderItem_create ck t1 (o_id r) y = Inl e \<longrightarrow>
      db (store ck s rq) = s \<and> trx (store ck s rq) = Some RolledBack)
   \<and> (status_of (store ck s rq) \<noteq> Some 201 \<longrightarrow>
      db (store ck s rq) = s \<and> trx (store ck s rq) = Some RolledBack)"
proof -
  have mid: "Order_create ck s (rq_user_id rq) (rq_status rq) = Inr (r, t)
        \<and> rq_items rq = Some (ys @ y # zs) \<and> syncItems ck (o_id r) ys t = (None, t1)
        \<and> OrderItem_create ck t1 (o_id r) y = Inl e \<longrightarrow>
      db (store ck s rq) = s \<and> trx (store ck s rq) = Some RolledBack"
  proof
    assume a: "Order_create ck s (rq_user_id rq) (rq_status rq) = Inr (r, t)
        \<and> rq_items rq = Some (ys @ y # zs) \<and> syncItems ck (o_id r) ys t = (None, t1)
        \<and> OrderItem_create ck t1 (o_id r) y = Inl e"
    then have "syncItems ck (o_id r) (ys @ y # zs) t = (Some e, t1)"
      by (simp add: syncItems_mid_batch)
    with a have "store ck s rq = \<lparr>reply = Inr (send_error ''This request not performed'' e),
        db = s, trx = Some RolledBack\<rparr>"
      using store_sync_fails[of ck s rq r t "ys @ y # zs" e t1] by blast
    then show "db (store ck s rq) = s \<and> trx (store ck s rq) = Some RolledBack" by simp
  qed
  show ?thesis
    using store_create_fails[of ck s rq e] store_sync_fails[of ck s rq r t xs e t'] mid
      store_not_201[of ck s rq]
    by blast
qed

theorem store_atomic_witness:
  "Order_create ex_checks ex_fresh None (Some ''pending'') = Inl DatabaseError
   \<and> db (store ex_checks ex_fresh \<lparr>rq_user_id = None, rq_items = None, rq_status = Some ''pending''\<rparr>) = ex_fresh
   \<and> syncItems ex_checks 2 [\<lparr>in_product_id = ''P1'', in_quantity = 2\<rparr>]
        (ex_fresh\<lparr>orders := [ex_order, \<lparr>o_id = 2, o_user_id = Some 5, o_status = Some ''pending'', o_deleted_at = None\<rparr>]\<rparr>)
       = (None, ex_fresh\<lparr>orders := [ex_order, \<lparr>o_id = 2, o_user_id = Some 5, o_status = Some ''pending'', o_deleted_at = None\<rparr>],
                 order_items := [\<lparr>i_id = 1, i_order_id = 2, i_product_id = ''P1'', i_quantity = 2\<rparr>]\<rparr>)
   \<and> status_of (store ex_checks ex_fresh
        \<lparr>rq_user_id = Some 5,
         rq_items = Some [\<lparr>in_product_id = ''P1'', in_quantity = 2\<rparr>,
                          \<lparr>in_product_id = ''P2'', in_quantity = 0\<rparr>,
                          \<lparr>in_product_id = ''P3'', in_quantity = 1\<rparr>],
         rq_status = Some ''pending''\<rparr>) = Some 400
   \<and> db (store ex_checks ex_fresh
        \<lparr>rq_user_id = Some 5,
         rq_items = Some [\<lparr>in_product_id = ''P1'', in_quantity = 2\<rparr>,
                          \<lparr>in_product_id = ''P2'', in_quantity = 0\<rparr>,
                          \<lparr>in_product_id = ''P3'', in_quantity = 1\<rparr>],
         rq_status = Some ''pending''\<rparr>) = ex_fresh"
proof -
  let ?o2 = "\<lparr>o_id = 2, o_user_id = Some 5, o_status = Some ''pending'', o_deleted_at = None\<rparr>"
  let ?t = "ex_fresh\<lparr>orders := [ex_order, ?o2]\<rparr>"
  let ?t1 = "ex_fresh\<lparr>orders := [ex_order, ?o2],
                 order_items := [\<lparr>i_id = 1, i_order_id = 2, i_product_id = ''P1'', i_quantity = 2\<rparr>]\<rparr>"
  let ?p1 = "\<lparr>in_product_id = ''P1'', in_quantity = 2\<rparr>"
  let ?p2 = "\<lparr>in_product_id = ''P2'', in_quantity = 0\<rparr>"
  let ?p3 = "\<lparr>in_product_id = ''P3'', in_quantity = 1\<rparr>"
  let ?rq = "\<lparr>rq_user_id = Some 5, rq_items = Some ([?p1] @ ?p2 # [?p3]), rq_status = Some ''pending''\<rparr>"
  let ?bad = "\<lparr>rq_user_id = None, rq_items = None, rq_status = Some ''pending''\<rparr>"
  have a: "Order_create ex_checks ex_fresh (rq_user_id ?bad) (rq_status ?bad) = Inl DatabaseError"
    by (simp add: Order_create_def ex_checks_def Let_def)
  have b: "Order_create ex_checks ex_fresh (rq_user_id ?rq) (rq_status ?rq) = Inr (?o2, ?t)"
    by (simp add: Order_create_def ex_checks_def ex_fresh_def ex_order_def next_id_def Let_def)
  have c: "syncItems ex_checks (o_id ?o2) [?p1] ?t = (None, ?t1)"
    by (simp add: OrderItem_create_def ex_checks_def ex_fresh_def next_id_def Let_def)
  have d: "OrderItem_create ex_checks ?t1 (o_id ?o2) ?p2 = Inl DatabaseError"
    by (simp add: OrderItem_create_def ex_checks_def Let_def)
  have i: "rq_items ?rq = Some ([?p1] @ ?p2 # [?p3])" by simp
  from store_atomic[of ex_checks ex_fresh ?bad DatabaseError ?o2 ?t "[]" ?t "[]" ?p2 "[]" ?t] a
  have A: "db (store ex_checks ex_fresh ?bad) = ex_fresh" by simp
  from store_atomic[of ex_checks ex_fresh ?rq DatabaseError ?o2 ?t "[]" ?t "[?p1]" ?p2 "[?p3]" ?t1] b c d i
  have B: "db (store ex_checks ex_fresh ?rq) = ex_fresh" by blast
  from store_atomic[of ex_checks ex_fresh ?rq DatabaseError ?o2 ?t "[?p1] @ ?p2 # [?p3]" ?t1]
    b i syncItems_mid_batch[OF c d, of "[?p3]"]
  have C: "store ex_checks ex_fresh ?rq = \<lparr>reply = Inr (send_error ''This request not performed'' DatabaseError), db = ex_fresh,
                       trx = Some RolledBack\<rparr>" by blast
  have C': "status_of (store ex_checks ex_fresh ?rq) = Some 400"
    unfolding C by (simp add: status_of_def send_error_def)
  show ?thesis using a A B C' c by simp
qed


lemma Order_create_Inr:
  "Order_create ck s u v = Inr (r, t) \<Longrightarrow>
   r = \<lparr>o_id = next_id (map o_id (orders s)), o_user_id = u, o_status = v, o_deleted_at = None\<rparr>
   \<and> t = s\<lparr>orders := orders s @ [r]\<rparr> \<and> order_ok ck r"
  by (auto simp: Order_create_def Let_def split: if_splits)

lemma store_201:
  assumes "status_of (store ck s rq) = Some 201"
  shows "\<exists>rows. db (store ck s rq) =
          s\<lparr>orders := orders s @
                [\<lparr>o_id = next_id (map o_id (orders s)), o_user_id = rq_user_id rq,
                  o_status = rq_status rq, o_deleted_at = None\<rparr>],
            order_items := order_items s @ rows\<rparr>
        \<and> map entry_of rows = requested_items rq
        \<and> map i_order_id rows =
            replicate (length (requested_items rq)) (next_id (map o_id (orders s)))"
proof (cases "Order_create ck s (rq_user_id rq) (rq_status rq)")
  case (Inl e)
  with assms show ?thesis
    by (simp add: store_def beginTransaction_def catch_store status_of_def send_error_def)
next
  case (Inr p)
  obtain r t where p: "p = (r, t)" by (cases p)
  let ?new = "\<lparr>o_id = next_id (map o_id (orders s)), o_user_id = rq_user_id rq,
                  o_status = rq_status rq, o_deleted_at = None\<rparr>"
  from Inr p have r: "r = ?new" and t: "t = s\<lparr>orders := orders s @ [?new]\<rparr>"
    using Order_create_Inr[of ck s "rq_user_id rq" "rq_status rq" r t] by auto
  have oid: "o_id r = next_id (map o_id (orders s))" using r by simp
  show ?thesis
  proof (cases "requested_items rq = []")
    case True
    then have "db (store ck s rq) = t"
      using Inr p by (auto simp: store_def beginTransaction_def commit_def requested_items_def
          split: option.splits)
    with t True show ?thesis by (intro exI[where x = "[]"]) simp
  next
    case False
    then obtain xs where xs: "rq_items rq = Some xs" "xs \<noteq> []" "requested_items rq = xs"
      by (auto simp: requested_items_def split: option.splits)
    obtain er t2 where sy: "syncItems ck (o_id r) xs t = (er, t2)" by (cases "syncItems ck (o_id r) xs t")
    have "er = None"
    proof (cases er)
      case None then show ?thesis .
    next
      case (Some e)
      with assms Inr p xs sy show ?thesis
        by (simp add: store_def beginTransaction_def catch_store status_of_def send_error_def)
    qed
    with sy have ok: "syncItems ck (o_id r) xs t = (None, t2)" by simp
    then have d: "db (store ck s rq) = t2"
      using Inr p xs by (simp add: store_def beginTransaction_def commit_def)
    from syncItems_ok[OF ok] obtain rows where
      rows: "t2 = t\<lparr>order_items := order_items t @ rows\<rparr>" "map entry_of rows = xs"
        "map i_order_id rows = replicate (length xs) (o_id r)" by blast
    have "db (store ck s rq) = s\<lparr>orders := orders s @ [?new], order_items := order_items s @ rows\<rparr>"
      using d rows(1) t by simp
    with rows(2,3) xs(3) oid show ?thesis by (intro exI[where x = rows]) simp
  qed
qed

lemma store_no_items:
  assumes "requested_items rq = []"
    and "order_ok ck \<lparr>o_id = next_id (map o_id (orders s)), o_user_id = rq_user_id rq,
                  o_status = rq_status rq, o_deleted_at = None\<rparr>"
  shows "status_of (store ck s rq) = Some 201
      \<and> db (store ck s rq) =
          s\<lparr>orders := orders s @
                [\<lparr>o_id = next_id (map o_id (orders s)), o_user_id = rq_user_id rq,
                  o_status = rq_status rq, o_deleted_at = None\<rparr>]\<rparr>
      \<and> trx (store ck s rq) = Some Committed"
  using assms
  by (auto simp: store_def beginTransaction_def commit_def requested_items_def Order_create_def
      status_of_def Let_def split: option.splits)

text \<open>
  Claim C7. A \<open>store\<close> that answers 201 has appended exactly one Order row, with the
  request's user and status, and one OrderItem row of that order per entry of the
  request's items, in order, and changed nothing else. When the items are empty or
  absent and the database accepts the Order row, the call answers 201 with the
  transaction committed and no OrderItem row added.
\<close>

theorem store_creates:
  "(status_of (store ck s rq) = Some 201 \<longrightarrow>
      (\<exists>rows. db (store ck s rq) =
          s\<lparr>orders := orders s @
                [\<lparr>o_id = next_id (map o_id (orders s)), o_user_id = rq_user_id rq,
                  o_status = rq_status rq, o_deleted_at = None\<rparr>],
            order_items := order_items s @ rows\<rparr>
        \<and> map entry_of rows = requested_items rq
        \<and> map i_order_id rows =
            replicate (length (requested_items rq)) (next_id (map o_id (orders s)))))
   \<and> (requested_items rq = []
       \<and> order_ok ck \<lparr>o_id = next_id (map o_id (orders s)), o_user_id = rq_user_id rq,
                  o_status = rq_status rq, o_deleted_at = None\<rparr> \<longrightarrow>
        status_of (store ck s rq) = Some 201
      \<and> db (store ck s rq) =
          s\<lparr>orders := orders s @
                [\<lparr>o_id = next_id (map o_id (orders s)), o_user_id = rq_user_id rq,
                  o_status = rq_status rq, o_deleted_at = None\<rparr>]\<rparr>
      \<and> trx (store ck s rq) = Some Committed)"
  using store_201[of ck s rq] store_no_items[of rq ck s] by blast

lemma ex_store_scenario:
  "store ex_checks ex_empty
     \<lparr>rq_user_id = Some 5, rq_items = Some [\<lparr>in_product_id = ''P1'', in_quantity = 2\<rparr>],
      rq_status = Some ''pending''\<rparr> =
   \<lparr>reply = Inr \<lparr>status = 201,
        body = OrderBody \<lparr>o_id = 1, o_user_id = Some 5, o_status = Some ''pending'', o_deleted_at = None\<rparr>
                 [\<lparr>i_id = 1, i_order_id = 1, i_product_id = ''P1'', i_quantity = 2\<rparr>]\<rparr>,
    db = \<lparr>orders = [\<lparr>o_id = 1, o_user_id = Some 5, o_status = Some ''pending'', o_deleted_at = None\<rparr>],
          order_items = [\<lparr>i_id = 1, i_order_id = 1, i_product_id = ''P1'', i_quantity = 2\<rparr>],
          coupons = [], discounts = []\<rparr>,
    trx = Some Committed\<rparr>"
  by (simp add: store_def beginTransaction_def commit_def Order_create_def OrderItem_create_def
      ex_checks_def ex_empty_def next_id_def Let_def hydrate_def Order_find_def items_of_def)

theorem store_creates_witness:
  "status_of (store ex_checks ex_empty
     \<lparr>rq_user_id = Some 5, rq_items = Some [\<lparr>in_product_id = ''P1'', in_quantity = 2\<rparr>],
      rq_status = Some ''pending''\<rparr>) = Some 201
   \<and> map entry_of (order_items (db (store ex_checks ex_empty
     \<lparr>rq_user_id = Some 5, rq_items = Some [\<lparr>in_product_id = ''P1'', in_quantity = 2\<rparr>],
      rq_status = Some ''pending''\<rparr>))) = [\<lparr>in_product_id = ''P1'', in_quantity = 2\<rparr>]
   \<and> requested_items \<lparr>rq_user_id = Some 5, rq_items = Some [], rq_status = Some ''pending''\<rparr> = []
   \<and> status_of (store ex_checks ex_empty
        \<lparr>rq_user_id = Some 5, rq_items = Some [], rq_status = Some ''pending''\<rparr>) = Some 201
   \<and> order_items (db (store ex_checks ex_empty
        \<lparr>rq_user_id = Some 5, rq_items = Some [], rq_status = Some ''pending''\<rparr>)) = []
   \<and> status_of (store ex_checks ex_empty
        \<lparr>rq_user_id = Some 5, rq_items = None, rq_status = Some ''pending''\<rparr>) = Some 201"
proof -
  let ?rq = "\<lparr>rq_user_id = Some 5, rq_items = Some [\<lparr>in_product_id = ''P1'', in_quantity = 2\<rparr>],
      rq_status = Some ''pending''\<rparr>"
  let ?re = "\<lparr>rq_user_id = Some 5, rq_items = Some [], rq_status = Some ''pending''\<rparr>"
  let ?rn = "\<lparr>rq_user_id = Some 5, rq_items = None, rq_status = Some ''pending''\<rparr>"
  have h: "status_of (store ex_checks ex_empty ?rq) = Some 201"
    by (simp add: ex_store_scenario status_of_def)
  have e: "requested_items ?re = []" "requested_items ?rn = []"
    by (simp_all add: requested_items_def)
  have ok: "order_ok ex_checks \<lparr>o_id = next_id (map o_id (orders ex_empty)), o_user_id = Some 5,
                  o_status = Some ''pending'', o_deleted_at = None\<rparr>"
    by (simp add: ex_checks_def)
  from store_creates[of ex_checks ex_empty ?rq] h
  have A: "map entry_of (order_items (db (store ex_checks ex_empty ?rq))) = [\<lparr>in_product_id = ''P1'', in_quantity = 2\<rparr>]"
    by (auto simp: requested_items_def ex_empty_def)
  from store_creates[of ex_checks ex_empty ?re] e ok
  have B: "status_of (store ex_checks ex_empty ?re) = Some 201
     \<and> order_items (db (store ex_checks ex_empty ?re)) = []"
    by (simp add: ex_empty_def)
  from store_creates[of ex_checks ex_empty ?rn] e ok
  have C: "status_of (store ex_checks ex_empty ?rn) = Some 201" by simp
  show ?thesis using h A B C e by simp
qed

section \<open>Updating an order\<close>

text \<open>
  The reconciliation does what the spec asks of it once all its writes have run: on
  tables whose item ids are distinct, with a database that accepts the new rows, the
  entries of the order are the requested list. So \<open>update\<close> leaves the requested
  items when every write has landed before the commit. When the order is not found or
  the save is refused, the exception of the \<open>catch\<close> block escapes; \<open>update\<close> never
  answers 400.
\<close>

lemma run_writes_deletes:
  "run_writes ck oid (map DeleteItem ks @ ws) t =
     run_writes ck oid ws (t\<lparr>order_items := filter (\<lambda>r. i_id r \<notin> set ks) (order_items t)\<rparr>)"
proof (induction ks arbitrary: t)
  case Nil
  then show ?case by simp
next
  case (Cons k ks)
  have "filter (\<lambda>r. i_id r \<notin> set ks) (filter (\<lambda>r. i_id r \<noteq> k) (order_items t))
      = filter (\<lambda>r. i_id r \<notin> set (k # ks)) (order_items t)"
    by (induction "order_items t") (auto intro: filter_cong)
  then show ?case using Cons.IH[of "t\<lparr>order_items := filter (\<lambda>r. i_id r \<noteq> k) (order_items t)\<rparr>"]
    by (simp add: apply_write_def)
qed

lemma run_writes_inserts:
  "(\<And>r. item_ok ck r) \<Longrightarrow>
   \<exists>rows. run_writes ck oid (map InsertItem ys) t = t\<lparr>order_items := order_items t @ rows\<rparr>
        \<and> map entry_of rows = ys \<and> set (map i_order_id rows) \<subseteq> {oid}"
proof (induction ys arbitrary: t)
  case Nil
  then show ?case by simp
next
  case (Cons y ys)
  let ?r0 = "\<lparr>i_id = next_id (map i_id (order_items t)), i_order_id = oid,
               i_product_id = in_product_id y, i_quantity = in_quantity y\<rparr>"
  let ?t1 = "t\<lparr>order_items := order_items t @ [?r0]\<rparr>"
  have c: "apply_write ck oid t (InsertItem y) = Inr ?t1"
    using Cons.prems by (simp add: apply_write_def OrderItem_create_def Let_def)
  from Cons.IH[OF Cons.prems, of ?t1] obtain rows where
    rows: "run_writes ck oid (map InsertItem ys) ?t1 = ?t1\<lparr>order_items := order_items ?t1 @ rows\<rparr>"
      "map entry_of rows = ys" "set (map i_order_id rows) \<subseteq> {oid}"
    by blast
  have "run_writes ck oid (map InsertItem (y # ys)) t = t\<lparr>order_items := order_items t @ (?r0 # rows)\<rparr>"
    using c rows(1) by simp
  moreover have "map entry_of (?r0 # rows) = y # ys" using rows(2) by (simp add: entry_of_def)
  moreover have "set (map i_order_id (?r0 # rows)) \<subseteq> {oid}" using rows(3) by simp
  ultimately show ?case by (intro exI[where x = "?r0 # rows"] conjI)
qed

lemma reconcile_all_landed:
  assumes d: "distinct (map i_id (order_items t))"
    and ok: "\<And>r. item_ok ck r"
  shows "entries_of (run_writes ck oid (syncUpdateItems_writes t oid (Some xs)) t) oid = set xs"
proof -
  let ?mine = "items_of t oid"
  let ?gone = "filter (\<lambda>r. entry_of r \<notin> set xs) ?mine"
  let ?ks = "map i_id ?gone"
  let ?ys = "filter (\<lambda>x. x \<notin> set (map entry_of ?mine)) (remdups xs)"
  let ?t1 = "t\<lparr>order_items := filter (\<lambda>r. i_id r \<notin> set ?ks) (order_items t)\<rparr>"
  have w: "syncUpdateItems_writes t oid (Some xs) = map DeleteItem ?ks @ map InsertItem ?ys"
    by (simp add: syncUpdateItems_writes_def comp_def)
  from run_writes_inserts[OF ok, of oid ?ys ?t1] obtain rows where
    rows: "run_writes ck oid (map InsertItem ?ys) ?t1 = ?t1\<lparr>order_items := order_items ?t1 @ rows\<rparr>"
      "map entry_of rows = ?ys" "set (map i_order_id rows) \<subseteq> {oid}"
    by blast
  have fin: "run_writes ck oid (syncUpdateItems_writes t oid (Some xs)) t
      = ?t1\<lparr>order_items := order_items ?t1 @ rows\<rparr>"
    unfolding w run_writes_deletes using rows(1) by simp
  have inj: "i_id r = i_id r' \<Longrightarrow> r = r'" if "r \<in> set (order_items t)" "r' \<in> set (order_items t)" for r r'
    using d that by (meson distinct_map inj_onD)
  have kept: "items_of ?t1 oid = filter (\<lambda>r. entry_of r \<in> set xs) ?mine"
  proof -
    have "\<And>r. r \<in> set (order_items t) \<Longrightarrow>
        (i_id r \<notin> set ?ks \<and> i_order_id r = oid) = (i_order_id r = oid \<and> entry_of r \<in> set xs)"
    proof -
      fix r assume r: "r \<in> set (order_items t)"
      show "(i_id r \<notin> set ?ks \<and> i_order_id r = oid) = (i_order_id r = oid \<and> entry_of r \<in> set xs)"
      proof (cases "i_order_id r = oid")
        case False then show ?thesis by simp
      next
        case True
        have "i_id r \<in> set ?ks \<longleftrightarrow> entry_of r \<notin> set xs"
        proof
          assume "i_id r \<in> set ?ks"
          then obtain r' where r': "r' \<in> set ?gone" "i_id r' = i_id r" by auto
          then have "r' \<in> set (order_items t)" by (auto simp: items_of_def)
          with r r'(2) have "r' = r" using inj by blast
          with r'(1) show "entry_of r \<notin> set xs" by auto
        next
          assume "entry_of r \<notin> set xs"
          with r True have "r \<in> set ?gone" by (auto simp: items_of_def)
          then show "i_id r \<in> set ?ks" by auto
        qed
        with True show ?thesis by simp
      qed
    qed
    then have "filter (\<lambda>r. i_order_id r = oid) (filter (\<lambda>r. i_id r \<notin> set ?ks) (order_items t))
        = filter (\<lambda>r. entry_of r \<in> set xs) (filter (\<lambda>r. i_order_id r = oid) (order_items t))"
      by (auto simp: filter_filter intro!: filter_cong)
    then show ?thesis by (simp add: items_of_def)
  qed
  have rows_mine: "filter (\<lambda>r. i_order_id r = oid) rows = rows"
    using rows(3) by (auto simp: filter_id_conv)
  have "items_of (?t1\<lparr>order_items := order_items ?t1 @ rows\<rparr>) oid
      = items_of ?t1 oid @ rows"
    using rows_mine by (simp add: items_of_def)
  then have "entries_of (?t1\<lparr>order_items := order_items ?t1 @ rows\<rparr>) oid
      = entry_of ` set (filter (\<lambda>r. entry_of r \<in> set xs) ?mine) \<union> set ?ys"
    using kept rows(2) by (simp add: entries_of_def image_Un)
  also have "\<dots> = set xs" by auto
  finally show ?thesis using fin by simp
qed

lemma update_all_landed:
  assumes "Order_findOrFail s i = Inr r"
    and "distinct (map i_id (order_items s))"
    and "\<And>x. item_ok ck x"
    and "order_ok ck (Order_merge r rq)"
    and "rq_items rq = Some xs"
    and "length (syncUpdateItems_writes s (o_id r) (Some xs)) \<le> landed"
  shows "entries_of (db (update ck landed s i rq)) (o_id r) = set xs"
proof -
  have e: "entries_of (t\<lparr>orders := os\<rparr>) k = entries_of t k" for t os k
    by (simp add: entries_of_def items_of_def)
  have "entries_of (run_writes ck (o_id r) (syncUpdateItems_writes s (o_id r) (Some xs)) s) (o_id r)
      = set xs"
    using assms(2,3) by (rule reconcile_all_landed)
  then show ?thesis
    using assms(1,4,5,6)
    by (simp add: update_def beginTransaction_def commit_def Order_save_def Let_def e)
qed

lemma update_not_found:
  "Order_findOrFail s i = Inl e \<Longrightarrow>
   update ck landed s i rq = \<lparr>reply = Inl (ReferenceError ''trx''), db = s, trx = None\<rparr>"
  by (simp add: update_def catch_update)

lemma update_save_refused:
  "Order_findOrFail s i = Inr r \<Longrightarrow> \<not> order_ok ck (Order_merge r rq) \<Longrightarrow>
   update ck landed s i rq = \<lparr>reply = Inl (ReferenceError ''trx''), db = s, trx = Some Open\<rparr>"
  by (simp add: update_def catch_update Order_save_def Let_def)

lemma update_never_400:
  "status_of (update ck landed s i rq) \<noteq> Some 400"
  by (auto simp: update_def catch_update status_of_def Let_def split: sum.splits)

text \<open>
  Claim C5, evaluated on the existing order 1 of \<open>ex_fresh\<close> and a request that moves
  it to user 99, whom the database does not know: the order is found, \<open>order.save\<close>
  is refused, and the \<open>catch\<close> block raises ReferenceError on reading \<open>trx\<close>, which
  is declared inside the \<open>try\<close> block. The method sends no response, the exception
  escapes it, and the transaction is left open, neither committed nor rolled back;
  the committed tables are unchanged.
\<close>

theorem update_failure_fails_secondarily:
  "Order_findOrFail ex_fresh 1 = Inr ex_order
   \<and> Order_save ex_checks ex_fresh
        (Order_merge ex_order \<lparr>rq_user_id = Some 99, rq_items = None, rq_status = Some ''paid''\<rparr>)
       = Inl DatabaseError
   \<and> update ex_checks landed ex_fresh 1
        \<lparr>rq_user_id = Some 99, rq_items = None, rq_status = Some ''paid''\<rparr>
       = \<lparr>reply = Inl (ReferenceError ''trx''), db = ex_fresh, trx = Some Open\<rparr>"
  by (simp add: update_def Order_findOrFail_def Order_find_def ex_fresh_def ex_order_def
      beginTransaction_def Order_merge_def syncUpdateItems_writes_def Order_save_def
      ex_checks_def catch_update Let_def)

text \<open>
  Claim C6, evaluated on order 1 with the one item P1 and a request that replaces it by
  P2, P3 and P4. The reconciliation issues four writes. The method does not wait for
  them: when fewer than four have reached the transaction at the commit, the method
  still commits and answers 200, and the committed items of the order are not the
  requested list. Only when all four have landed do they match.
\<close>

theorem update_commits_partial_reconciliation:
  "set (requested_items ex_replace) =
     {\<lparr>in_product_id = ''P2'', in_quantity = 1\<rparr>, \<lparr>in_product_id = ''P3'', in_quantity = 1\<rparr>,
      \<lparr>in_product_id = ''P4'', in_quantity = 1\<rparr>}
   \<and> entries_of (db (update ex_checks 0 ex_with_item 1 ex_replace)) 1 =
       {\<lparr>in_product_id = ''P1'', in_quantity = 2\<rparr>}
   \<and> entries_of (db (update ex_checks 1 ex_with_item 1 ex_replace)) 1 = {}
   \<and> entries_of (db (update ex_checks 2 ex_with_item 1 ex_replace)) 1 =
       {\<lparr>in_product_id = ''P2'', in_quantity = 1\<rparr>}
   \<and> entries_of (db (update ex_checks 3 ex_with_item 1 ex_replace)) 1 =
       {\<lparr>in_product_id = ''P2'', in_quantity = 1\<rparr>, \<lparr>in_product_id = ''P3'', in_quantity = 1\<rparr>}
   \<and> entries_of (db (update ex_checks 4 ex_with_item 1 ex_replace)) 1 =
       set (requested_items ex_replace)
   \<and> status_of (update ex_checks 2 ex_with_item 1 ex_replace) = Some 200
   \<and> trx (update ex_checks 2 ex_with_item 1 ex_replace) = Some Committed"
proof -
  have r: "set (requested_items ex_replace) =
     {\<lparr>in_product_id = ''P2'', in_quantity = 1\<rparr>, \<lparr>in_product_id = ''P3'', in_quantity = 1\<rparr>,
      \<lparr>in_product_id = ''P4'', in_quantity = 1\<rparr>}"
    by (simp add: requested_items_def ex_replace_def)
  have k0: "entries_of (db (update ex_checks 0 ex_with_item 1 ex_replace)) 1 =
       {\<lparr>in_product_id = ''P1'', in_quantity = 2\<rparr>}"
    by code_simp
  have k1: "entries_of (db (update ex_checks 1 ex_with_item 1 ex_replace)) 1 = {}"
    by code_simp
  have k2: "entries_of (db (update ex_checks 2 ex_with_item 1 ex_replace)) 1 =
       {\<lparr>in_product_id = ''P2'', in_quantity = 1\<rparr>}"
    by code_simp
  have k3: "entries_of (db (update ex_checks 3 ex_with_item 1 ex_replace)) 1 =
       {\<lparr>in_product_id = ''P2'', in_quantity = 1\<rparr>, \<lparr>in_product_id = ''P3'', in_quantity = 1\<rparr>}"
    by code_simp
  have k4: "entries_of (db (update ex_checks 4 ex_with_item 1 ex_replace)) 1 =
       {\<lparr>in_product_id = ''P2'', in_quantity = 1\<rparr>, \<lparr>in_product_id = ''P3'', in_quantity = 1\<rparr>,
      \<lparr>in_product_id = ''P4'', in_quantity = 1\<rparr>}"
    by code_simp
  have st: "status_of (update ex_checks 2 ex_with_item 1 ex_replace) = Some 200
   \<and> trx (update ex_checks 2 ex_with_item 1 ex_replace) = Some Committed"
    by code_simp
  from r k0 k1 k2 k3 k4 st show ?thesis by simp
qed

end
